theory Spec2Isabelle
  imports Main
begin

section \<open>The call hierarchy provider of pyright\<close>

text \<open>
  A shallow embedding of \<^verbatim>\<open>languageService/callHierarchyProvider.ts\<close>: the class
  \<^verbatim>\<open>CallHierarchyProvider\<close> with its three public operations and the two tree walkers
  \<^verbatim>\<open>FindOutgoingCallTreeWalker\<close> and \<^verbatim>\<open>FindIncomingCallTreeWalker\<close>.

  Everything the file imports from other modules (the type evaluator, the program view,
  the declaration and parse tree utilities) is a parameter: a field of one of the records
  \<open>Host\<close>, \<open>Evaluator\<close> and \<open>Program\<close> below. The theorems hold for every value of these
  parameters unless a hypothesis says otherwise.
\<close>

subsection \<open>Data\<close>

record Position =
  line :: nat
  character :: nat

record Range =
  rangeStart :: Position
  rangeEnd :: Position

text \<open>A name node: its identity (JavaScript compares nodes by reference), its text
  (\<^verbatim>\<open>value\<close>), and its extent (\<^verbatim>\<open>start\<close>, \<^verbatim>\<open>length\<close>).\<close>

record NameNode =
  nameId :: nat
  nameValue :: string
  nameStart :: nat
  nameLength :: nat

text \<open>The parse tree, as far as the provider looks at it: name nodes, member accesses
  (\<^verbatim>\<open>leftExpression\<close>, \<^verbatim>\<open>memberName\<close>), calls (\<^verbatim>\<open>leftExpression\<close>, arguments) and
  every other kind of node with its children. The first argument of the last three
  constructors is the identity of the node.\<close>

datatype ParseNode =
    NameN NameNode
  | MemberAccessN nat ParseNode NameNode
  | CallN nat ParseNode "ParseNode list"
  | OtherN nat "ParseNode list"

fun nodeId :: "ParseNode \<Rightarrow> nat" where
  "nodeId (NameN n) = nameId n"
| "nodeId (MemberAccessN i l m) = i"
| "nodeId (CallN i l args) = i"
| "nodeId (OtherN i cs) = i"

text \<open>The kinds of declaration. The enumeration is declared in
  \<^verbatim>\<open>analyzer/declaration\<close>; the provider distinguishes \<open>Function\<close>, \<open>Class\<close> and \<open>Alias\<close>
  from everything else.\<close>

datatype DeclarationType = Function | Class | Alias | Variable | OtherDeclaration

record Declaration =
  declType :: DeclarationType
  declNode :: ParseNode
  declPath :: string
  declRange :: Range

text \<open>\<^verbatim>\<open>SymbolKind\<close> of the language server protocol is a number.\<close>

type_synonym SymbolKind = nat

definition SymbolKind_Module :: SymbolKind where
  "SymbolKind_Module = 2"

definition SymbolKind_Function :: SymbolKind where
  "SymbolKind_Function = 12"

record CallHierarchyItem =
  name :: string
  kind :: SymbolKind
  uri :: string
  itemRange :: Range
  selectionRange :: Range

record CallHierarchyOutgoingCall =
  to_item :: CallHierarchyItem
  out_fromRanges :: "Range list"

record CallHierarchyIncomingCall =
  from_item :: CallHierarchyItem
  in_fromRanges :: "Range list"

text \<open>The line table of the tokenizer output (\<^verbatim>\<open>tokenizerOutput.lines\<close>) is only handed
  to \<^verbatim>\<open>convertOffsetsToRange\<close>.\<close>

type_synonym TextRangeCollection = "nat list"

record ParseResults =
  parseTree :: ParseNode
  tokenizerLines :: TextRangeCollection

record ReferencesResult =
  declarations :: "Declaration list"
  nodeAtOffset :: NameNode
  symbolNames :: "string list"

text \<open>The execution scope of a name: the module, a lambda (\<^verbatim>\<open>start\<close>, \<^verbatim>\<open>length\<close>) or a
  function (its \<^verbatim>\<open>name\<close> node).\<close>

datatype ExecutionScopeNode =
    ModuleScope
  | LambdaScope nat nat
  | FunctionScope NameNode

subsection \<open>Types and class members\<close>

record Symbol =
  symDeclarations :: "Declaration list"
  symIsInstanceMember :: bool

datatype ClassDetails =
  ClassDetails (className: string) (classFields: "(string \<times> Symbol) list")
    (isObjectClass: bool) (isPropertyClass: bool) (baseMro: "ClassDetails list")

text \<open>A type is a function, a class (the class object when the flag is \<open>False\<close>, an
  instance of it when \<open>True\<close>) or something else.\<close>

datatype Type =
    FunctionType
  | ClassType ClassDetails bool
  | OtherType nat

record ClassMember =
  memberSymbol :: Symbol
  memberClass :: ClassDetails

fun isInstantiableClass :: "Type \<Rightarrow> bool" where
  "isInstantiableClass (ClassType c inst) = (\<not> inst)"
| "isInstantiableClass t = False"

fun isClassInstance :: "Type \<Rightarrow> bool" where
  "isClassInstance (ClassType c inst) = inst"
| "isClassInstance t = False"

fun isFunction :: "Type \<Rightarrow> bool" where
  "isFunction FunctionType = True"
| "isFunction t = False"

datatype ClassMemberLookupFlags = SkipInstanceVariables | SkipObjectBaseClass | SkipBaseClasses

text \<open>
  Modelled from the spec: \<^verbatim>\<open>lookUpClassMember\<close> of \<^verbatim>\<open>analyzer/typeUtils\<close> is not under
  \<^verbatim>\<open>src/\<close>. The spec (4.2) has the outgoing walk start at "the class's own (non-inherited)
  constructor-method body if one exists", and the caller's comment says that the flags
  keep the lookup from searching the parent classes. The model goes through the class and
  then its base classes in method resolution order, stops after the class itself under
  \<open>SkipBaseClasses\<close>, stops at the \<^verbatim>\<open>object\<close> class under \<open>SkipObjectBaseClass\<close>, and passes
  over instance variables under \<open>SkipInstanceVariables\<close>.
\<close>

fun classIterator :: "ClassMemberLookupFlags set \<Rightarrow> ClassDetails list \<Rightarrow> ClassDetails list" where
  "classIterator flags [] = []"
| "classIterator flags (c # cs) =
     (if SkipObjectBaseClass \<in> flags \<and> isObjectClass c then []
      else c # (if SkipBaseClasses \<in> flags then [] else classIterator flags cs))"

fun memberIn :: "ClassMemberLookupFlags set \<Rightarrow> string \<Rightarrow> ClassDetails list \<Rightarrow> ClassMember option" where
  "memberIn flags memberName [] = None"
| "memberIn flags memberName (c # cs) =
     (case map_of (classFields c) memberName of
        None \<Rightarrow> memberIn flags memberName cs
      | Some s \<Rightarrow>
          (if SkipInstanceVariables \<in> flags \<and> symIsInstanceMember s
           then memberIn flags memberName cs
           else Some \<lparr>memberSymbol = s, memberClass = c\<rparr>))"

definition lookUpClassMember ::
  "ClassDetails \<Rightarrow> string \<Rightarrow> ClassMemberLookupFlags set \<Rightarrow> ClassMember option" where
  "lookUpClassMember classType memberName flags =
     memberIn flags memberName (classIterator flags (classType # baseMro classType))"

subsection \<open>The collaborators\<close>

text \<open>The functions the provider imports from \<^verbatim>\<open>declarationUtils\<close>, \<^verbatim>\<open>parseTreeUtils\<close>,
  \<^verbatim>\<open>typeUtils\<close>, \<^verbatim>\<open>types\<close>, \<^verbatim>\<open>lspUtils\<close>, \<^verbatim>\<open>pathUtils\<close>, \<^verbatim>\<open>positionUtils\<close>, \<^verbatim>\<open>navigationUtils\<close>,
  \<^verbatim>\<open>sourceFileInfoUtils\<close>, \<^verbatim>\<open>referencesProvider\<close> and \<^verbatim>\<open>documentSymbolCollector\<close>.
  Where the source passes them the program, the file system, the evaluator or the
  cancellation token, the model leaves that argument out: they are pure here, and a
  cancellation check of their own is not modelled. \<open>doForEachSubtype\<close> gives the subtypes
  its callback is applied to, in order.\<close>

record SourceFileInfo =
  sourceFilePath :: string
  isOpenByClient :: bool

record Host =
  hasTypeForDeclaration :: "Declaration \<Rightarrow> bool"
  getNameFromDeclaration :: "Declaration \<Rightarrow> string option"
  areDeclarationsSame :: "Declaration \<Rightarrow> Declaration \<Rightarrow> bool"
  getExecutionScopeNode :: "NameNode \<Rightarrow> ExecutionScopeNode option"
  getSymbolKind :: "Declaration \<Rightarrow> string \<Rightarrow> SymbolKind option"
  convertOffsetsToRange :: "nat \<Rightarrow> nat \<Rightarrow> TextRangeCollection \<Rightarrow> Range"
  getFileName :: "string \<Rightarrow> string"
  canNavigateToFile :: "string \<Rightarrow> bool"
  convertPathToUri :: "string \<Rightarrow> string"
  isUserCode :: "SourceFileInfo \<Rightarrow> bool"
  getDeclarationForPosition :: "string \<Rightarrow> Position \<Rightarrow> ReferencesResult option"
  getDeclarationsForNode :: "NameNode \<Rightarrow> Declaration list option"
  doForEachSubtype :: "Type \<Rightarrow> Type list"
  lookUpObjectMember :: "Type \<Rightarrow> string \<Rightarrow> ClassMember option"

record Evaluator =
  resolveAliasDeclaration :: "Declaration \<Rightarrow> bool \<Rightarrow> Declaration option"
  getDeclarationsForNameNode :: "NameNode \<Rightarrow> Declaration list option"
  getTypeForDeclaration :: "Declaration \<Rightarrow> Type option"
  getTypeOfMember :: "ClassMember \<Rightarrow> Type option"
  getType :: "ParseNode \<Rightarrow> Type option"
  makeTopLevelTypeVarsConcrete :: "Type \<Rightarrow> Type"

text \<open>The program view: \<^verbatim>\<open>getParseResults\<close>, \<^verbatim>\<open>getSourceFileInfo\<close>,
  \<^verbatim>\<open>getSourceFileInfoList\<close> and the evaluator. \<^verbatim>\<open>handleMemoryHighUsage\<close> may drop the
  host's type cache and has no result; it is left out.\<close>

record Program =
  getParseResults :: "string \<Rightarrow> ParseResults option"
  getSourceFileInfo :: "string \<Rightarrow> SourceFileInfo option"
  getSourceFileInfoList :: "SourceFileInfo list"
  evaluator :: Evaluator

text \<open>The provider, as its constructor is called; \<^verbatim>\<open>_parseResults\<close> is
  \<^verbatim>\<open>getParseResults\<close> of the program at the file path.\<close>

record Provider =
  program :: Program
  filePath :: string
  cursorPosition :: Position

definition provider_parseResults :: "Provider \<Rightarrow> ParseResults option" where
  "provider_parseResults p = getParseResults (program p) (filePath p)"

subsection \<open>Errors and cancellation\<close>

text \<open>What an operation can throw: the cancellation exception of
  \<^verbatim>\<open>throwIfCancellationRequested\<close>, and the \<^verbatim>\<open>TypeError\<close> of JavaScript where the source
  reads a property of a value it asserts to be defined (\<^verbatim>\<open>!\<close>) and that is not.\<close>

datatype Error = OperationCanceled | TypeError

text \<open>The cancellation token is set from outside while the query runs. The model counts
  the checks: \<open>CancelAfter n\<close> lets \<open>n\<close> checks pass and is cancelled from then on,
  \<open>NeverCancelled\<close> lets every check pass. A check that passes hands the token on.\<close>

datatype CancellationToken = NeverCancelled | CancelAfter nat

fun throwIfCancellationRequested :: "CancellationToken \<Rightarrow> Error + CancellationToken" where
  "throwIfCancellationRequested NeverCancelled = Inr NeverCancelled"
| "throwIfCancellationRequested (CancelAfter 0) = Inl OperationCanceled"
| "throwIfCancellationRequested (CancelAfter (Suc n)) = Inr (CancelAfter n)"

subsection \<open>Choosing the target declaration\<close>

text \<open>The loop of \<^verbatim>\<open>_getTargetDeclaration\<close> over the declarations still to visit, with the
  current \<open>targetDecl\<close>; \<^verbatim>\<open>break\<close> returns at once.\<close>

fun targetDeclLoop :: "Host \<Rightarrow> NameNode \<Rightarrow> Declaration \<Rightarrow> Declaration list \<Rightarrow> Declaration" where
  "targetDeclLoop h node targetDecl [] = targetDecl"
| "targetDeclLoop h node targetDecl (decl # rest) =
     (if hasTypeForDeclaration h decl \<or> \<not> hasTypeForDeclaration h targetDecl then
        (if declType decl = Function \<or> declType decl = Class then
           (if nodeId (declNode decl) = nameId node then decl
            else targetDeclLoop h node decl rest)
         else targetDeclLoop h node targetDecl rest)
      else targetDeclLoop h node targetDecl rest)"

record TargetDeclaration =
  targetDecl :: Declaration
  callItemUri :: string
  symbolName :: string

text \<open>\<^verbatim>\<open>_getTargetDeclaration\<close>. Its callers have checked that there is a declaration;
  on an empty list \<^verbatim>\<open>declarations[0]\<close> is undefined and reading its \<^verbatim>\<open>type\<close> throws.
  \<^verbatim>\<open>a || b\<close> is \<open>b\<close> when \<open>a\<close> is undefined or the empty string. \<^verbatim>\<open>symbolNames[0]\<close> of an
  empty list would be undefined; the references result always names the symbol, and the
  model gives the empty string there.\<close>

definition getTargetDeclaration :: "Host \<Rightarrow> Provider \<Rightarrow> ReferencesResult \<Rightarrow> Error + TargetDeclaration" where
  "getTargetDeclaration h p referencesResult =
     (case declarations referencesResult of
        [] \<Rightarrow> Inl TypeError
      | first # others \<Rightarrow>
          (let target = targetDeclLoop h (nodeAtOffset referencesResult) first
                 (declarations referencesResult)
           in if declType target = Alias then
                Inr \<lparr>targetDecl = target, callItemUri = filePath p,
                     symbolName = nameValue (nodeAtOffset referencesResult)\<rparr>
              else
                Inr \<lparr>targetDecl = target, callItemUri = declPath target,
                     symbolName =
                       (case getNameFromDeclaration h target of
                          Some n \<Rightarrow>
                            (if n \<noteq> [] then n
                             else (case symbolNames referencesResult of [] \<Rightarrow> [] | s # ss \<Rightarrow> s))
                        | None \<Rightarrow>
                            (case symbolNames referencesResult of [] \<Rightarrow> [] | s # ss \<Rightarrow> s))\<rparr>))"

subsection \<open>Walking a parse tree\<close>

text \<open>
  Modelled from the spec: \<^verbatim>\<open>ParseTreeWalker\<close> of \<^verbatim>\<open>analyzer/parseTreeWalker\<close> is not under
  \<^verbatim>\<open>src/\<close>. The spec (4.2, 4.3) has the walk go "depth-first over all syntax nodes under
  root": a node is visited before its children, the children from left to right. The two
  walkers override \<^verbatim>\<open>visitCall\<close> and \<^verbatim>\<open>visitMemberAccess\<close>, which both return true, so the
  walk always goes on into the children. The visitors are parameters here; the state \<open>'s\<close>
  is what they change, and an exception of a visitor ends the walk.
\<close>

fun walk ::
  "(ParseNode \<Rightarrow> 's \<Rightarrow> Error + 's) \<Rightarrow> (ParseNode \<Rightarrow> NameNode \<Rightarrow> 's \<Rightarrow> Error + 's) \<Rightarrow>
   ParseNode \<Rightarrow> 's \<Rightarrow> Error + 's"
and walkMultiple ::
  "(ParseNode \<Rightarrow> 's \<Rightarrow> Error + 's) \<Rightarrow> (ParseNode \<Rightarrow> NameNode \<Rightarrow> 's \<Rightarrow> Error + 's) \<Rightarrow>
   ParseNode list \<Rightarrow> 's \<Rightarrow> Error + 's"
where
  "walk visitCall visitMemberAccess (NameN n) s = Inr s"
| "walk visitCall visitMemberAccess (MemberAccessN i leftExpression memberName) s =
     (case visitMemberAccess leftExpression memberName s of
        Inl e \<Rightarrow> Inl e
      | Inr s1 \<Rightarrow>
          (case walk visitCall visitMemberAccess leftExpression s1 of
             Inl e \<Rightarrow> Inl e
           | Inr s2 \<Rightarrow> walk visitCall visitMemberAccess (NameN memberName) s2))"
| "walk visitCall visitMemberAccess (CallN i leftExpression arguments) s =
     (case visitCall leftExpression s of
        Inl e \<Rightarrow> Inl e
      | Inr s1 \<Rightarrow> walkMultiple visitCall visitMemberAccess (leftExpression # arguments) s1)"
| "walk visitCall visitMemberAccess (OtherN i children) s =
     walkMultiple visitCall visitMemberAccess children s"
| "walkMultiple visitCall visitMemberAccess [] s = Inr s"
| "walkMultiple visitCall visitMemberAccess (n # ns) s =
     (case walk visitCall visitMemberAccess n s of
        Inl e \<Rightarrow> Inl e
      | Inr s1 \<Rightarrow> walkMultiple visitCall visitMemberAccess ns s1)"

text \<open>The name node of a call, as both \<^verbatim>\<open>visitCall\<close> methods find it: the left
  expression when it is a name, its member name when it is a member access.\<close>

fun calleeNameNode :: "ParseNode \<Rightarrow> NameNode option" where
  "calleeNameNode (NameN n) = Some n"
| "calleeNameNode (MemberAccessN i leftExpression memberName) = Some memberName"
| "calleeNameNode other = None"

text \<open>\<^verbatim>\<open>Array.prototype.find\<close>, by position: the first element that satisfies \<open>P\<close>.\<close>

fun findIndex :: "('a \<Rightarrow> bool) \<Rightarrow> 'a list \<Rightarrow> nat option" where
  "findIndex P [] = None"
| "findIndex P (x # xs) = (if P x then Some 0 else map_option Suc (findIndex P xs))"

fun isPropertyClassType :: "Type \<Rightarrow> bool" where
  "isPropertyClassType (ClassType c inst) = isPropertyClass c"
| "isPropertyClassType t = False"

subsection \<open>The walker for outgoing calls\<close>

text \<open>\<^verbatim>\<open>_addOutgoingCallForDeclaration\<close>. The list \<^verbatim>\<open>_outgoingCalls\<close> is the state; the entry
  found or pushed is changed in place. \<^verbatim>\<open>rangesAreEqual\<close> compares the two positions of
  a range, which is equality of \<open>Range\<close>.\<close>

definition addOutgoingCallForDeclaration ::
  "Host \<Rightarrow> Evaluator \<Rightarrow> ParseResults \<Rightarrow> NameNode \<Rightarrow> Declaration \<Rightarrow>
   CallHierarchyOutgoingCall list \<Rightarrow> CallHierarchyOutgoingCall list" where
  "addOutgoingCallForDeclaration h ev pr nameNode declaration outgoingCalls =
     (case resolveAliasDeclaration ev declaration True of
        None \<Rightarrow> outgoingCalls
      | Some resolvedDecl \<Rightarrow>
          if declType resolvedDecl \<noteq> Function \<and> declType resolvedDecl \<noteq> Class then outgoingCalls
          else
            let callDest = \<lparr>name = nameValue nameNode,
                   kind = (case getSymbolKind h resolvedDecl (nameValue nameNode) of
                             None \<Rightarrow> SymbolKind_Module | Some k \<Rightarrow> k),
                   uri = declPath resolvedDecl,
                   itemRange = declRange resolvedDecl,
                   selectionRange = declRange resolvedDecl\<rparr>;
                found = findIndex (\<lambda>outgoing. uri (to_item outgoing) = uri callDest \<and>
                          itemRange (to_item outgoing) = itemRange callDest) outgoingCalls;
                calls1 = (case found of
                            None \<Rightarrow> outgoingCalls @ [\<lparr>to_item = callDest, out_fromRanges = []\<rparr>]
                          | Some i \<Rightarrow> outgoingCalls);
                i = (case found of None \<Rightarrow> length outgoingCalls | Some i \<Rightarrow> i);
                outgoingCall = calls1 ! i;
                renamed =
                  (if name (to_item outgoingCall) \<noteq> nameValue nameNode then
                     outgoingCall\<lparr>to_item := (to_item outgoingCall)\<lparr>name :=
                       (case getNameFromDeclaration h resolvedDecl of
                          Some n \<Rightarrow> n | None \<Rightarrow> nameValue nameNode)\<rparr>\<rparr>
                   else outgoingCall);
                fromRange = convertOffsetsToRange h (nameStart nameNode)
                              (nameStart nameNode + nameLength nameNode) (tokenizerLines pr)
            in calls1[i := renamed\<lparr>out_fromRanges := out_fromRanges renamed @ [fromRange]\<rparr>])"

type_synonym OutgoingState = "CallHierarchyOutgoingCall list \<times> CancellationToken"

text \<open>\<^verbatim>\<open>visitCall\<close> of the outgoing walker, on the left expression of the call node.\<close>

definition visitCall_out ::
  "Host \<Rightarrow> Evaluator \<Rightarrow> ParseResults \<Rightarrow> ParseNode \<Rightarrow> OutgoingState \<Rightarrow> Error + OutgoingState" where
  "visitCall_out h ev pr leftExpression st =
     (case throwIfCancellationRequested (snd st) of
        Inl e \<Rightarrow> Inl e
      | Inr tok \<Rightarrow>
          (case calleeNameNode leftExpression of
             None \<Rightarrow> Inr (fst st, tok)
           | Some nameNode \<Rightarrow>
               (case getDeclarationsForNameNode ev nameNode of
                  None \<Rightarrow> Inr (fst st, tok)
                | Some decls \<Rightarrow>
                    Inr (foldl (\<lambda>calls decl.
                           addOutgoingCallForDeclaration h ev pr nameNode decl calls)
                         (fst st) decls, tok))))"

text \<open>The callback that \<^verbatim>\<open>visitMemberAccess\<close> of the outgoing walker runs on each
  subtype of the type of the left expression.\<close>

definition propertyAccess_out ::
  "Host \<Rightarrow> Evaluator \<Rightarrow> ParseResults \<Rightarrow> NameNode \<Rightarrow>
   CallHierarchyOutgoingCall list \<Rightarrow> Type \<Rightarrow> CallHierarchyOutgoingCall list" where
  "propertyAccess_out h ev pr memberName calls subtype =
     (let baseType = makeTopLevelTypeVarsConcrete ev subtype in
      if \<not> isClassInstance baseType then calls
      else
        (case lookUpObjectMember h baseType (nameValue memberName) of
           None \<Rightarrow> calls
         | Some memberInfo \<Rightarrow>
             (case getTypeOfMember ev memberInfo of
                None \<Rightarrow> calls
              | Some memberType \<Rightarrow>
                  if isClassInstance memberType \<and> isPropertyClassType memberType then
                    foldl (\<lambda>cs decl. addOutgoingCallForDeclaration h ev pr memberName decl cs)
                      calls (symDeclarations (memberSymbol memberInfo))
                  else calls)))"

definition visitMemberAccess_out ::
  "Host \<Rightarrow> Evaluator \<Rightarrow> ParseResults \<Rightarrow> ParseNode \<Rightarrow> NameNode \<Rightarrow> OutgoingState \<Rightarrow>
   Error + OutgoingState" where
  "visitMemberAccess_out h ev pr leftExpression memberName st =
     (case throwIfCancellationRequested (snd st) of
        Inl e \<Rightarrow> Inl e
      | Inr tok \<Rightarrow>
          (case getType ev leftExpression of
             None \<Rightarrow> Inr (fst st, tok)
           | Some leftHandType \<Rightarrow>
               Inr (foldl (propertyAccess_out h ev pr memberName) (fst st)
                      (doForEachSubtype h leftHandType), tok)))"

text \<open>\<^verbatim>\<open>findCalls\<close> of the outgoing walker: the walk from the parse root, with no call
  recorded at the start.\<close>

definition findCalls_out ::
  "Host \<Rightarrow> Evaluator \<Rightarrow> ParseResults \<Rightarrow> ParseNode \<Rightarrow> CancellationToken \<Rightarrow> Error + OutgoingState" where
  "findCalls_out h ev pr parseRoot tok =
     walk (visitCall_out h ev pr) (visitMemberAccess_out h ev pr) parseRoot ([], tok)"

subsection \<open>The walker for incoming calls\<close>

record IncomingWalker =
  walkerFilePath :: string
  walkerSymbolName :: string
  walkerDeclaration :: Declaration
  walkerParseResults :: ParseResults

type_synonym IncomingState = "CallHierarchyIncomingCall list \<times> CancellationToken"

text \<open>The caller item that \<^verbatim>\<open>_addIncomingCallForDeclaration\<close> builds for an execution
  scope.\<close>

definition callSourceOf :: "Host \<Rightarrow> IncomingWalker \<Rightarrow> ExecutionScopeNode \<Rightarrow> CallHierarchyItem" where
  "callSourceOf h w executionNode =
     (case executionNode of
        ModuleScope \<Rightarrow>
          (let moduleRange = convertOffsetsToRange h 0 0 (tokenizerLines (walkerParseResults w));
               fileName = getFileName h (walkerFilePath w)
           in \<lparr>name = ''(module) '' @ fileName, kind = SymbolKind_Module,
                uri = walkerFilePath w, itemRange = moduleRange, selectionRange = moduleRange\<rparr>)
      | LambdaScope lambdaStart lambdaLength \<Rightarrow>
          (let lambdaRange = convertOffsetsToRange h lambdaStart (lambdaStart + lambdaLength)
                 (tokenizerLines (walkerParseResults w))
           in \<lparr>name = ''(lambda)'', kind = SymbolKind_Function,
                uri = walkerFilePath w, itemRange = lambdaRange, selectionRange = lambdaRange\<rparr>)
      | FunctionScope functionName \<Rightarrow>
          (let functionRange = convertOffsetsToRange h (nameStart functionName)
                 (nameStart functionName + nameLength functionName)
                 (tokenizerLines (walkerParseResults w))
           in \<lparr>name = nameValue functionName, kind = SymbolKind_Function,
                uri = walkerFilePath w, itemRange = functionRange, selectionRange = functionRange\<rparr>))"

text \<open>\<^verbatim>\<open>_addIncomingCallForDeclaration\<close>, with \<^verbatim>\<open>_incomingCalls\<close> as the state.\<close>

definition addIncomingCallForDeclaration ::
  "Host \<Rightarrow> IncomingWalker \<Rightarrow> NameNode \<Rightarrow> CallHierarchyIncomingCall list \<Rightarrow>
   CallHierarchyIncomingCall list" where
  "addIncomingCallForDeclaration h w nameNode incomingCalls =
     (case getExecutionScopeNode h nameNode of
        None \<Rightarrow> incomingCalls
      | Some executionNode \<Rightarrow>
          let callSource = callSourceOf h w executionNode;
              found = findIndex (\<lambda>incoming. uri (from_item incoming) = uri callSource \<and>
                        itemRange (from_item incoming) = itemRange callSource) incomingCalls;
              calls1 = (case found of
                          None \<Rightarrow> incomingCalls @ [\<lparr>from_item = callSource, in_fromRanges = []\<rparr>]
                        | Some i \<Rightarrow> incomingCalls);
              i = (case found of None \<Rightarrow> length incomingCalls | Some i \<Rightarrow> i);
              incomingCall = calls1 ! i;
              fromRange = convertOffsetsToRange h (nameStart nameNode)
                            (nameStart nameNode + nameLength nameNode)
                            (tokenizerLines (walkerParseResults w))
          in calls1[i := incomingCall\<lparr>in_fromRanges := in_fromRanges incomingCall @ [fromRange]\<rparr>])"

text \<open>\<^verbatim>\<open>visitCall\<close> of the incoming walker. \<^verbatim>\<open>declarations.some(...)\<close> is \<open>list_ex\<close>.\<close>

definition visitCall_in ::
  "Host \<Rightarrow> Evaluator \<Rightarrow> IncomingWalker \<Rightarrow> ParseNode \<Rightarrow> IncomingState \<Rightarrow> Error + IncomingState" where
  "visitCall_in h ev w leftExpression st =
     (case throwIfCancellationRequested (snd st) of
        Inl e \<Rightarrow> Inl e
      | Inr tok \<Rightarrow>
          (case calleeNameNode leftExpression of
             None \<Rightarrow> Inr (fst st, tok)
           | Some nameNode \<Rightarrow>
               if nameValue nameNode = walkerSymbolName w then
                 (case getDeclarationsForNode h nameNode of
                    None \<Rightarrow> Inr (fst st, tok)
                  | Some decls \<Rightarrow>
                      if declType (walkerDeclaration w) = Alias then
                        (case resolveAliasDeclaration ev (walkerDeclaration w) True of
                           None \<Rightarrow> Inr (fst st, tok)
                         | Some resolvedCurDecls \<Rightarrow>
                             if list_ex (\<lambda>decl. areDeclarationsSame h decl resolvedCurDecls) decls
                             then Inr (addIncomingCallForDeclaration h w nameNode (fst st), tok)
                             else Inr (fst st, tok))
                      else if list_ex (\<lambda>decl. areDeclarationsSame h decl (walkerDeclaration w)) decls
                      then Inr (addIncomingCallForDeclaration h w nameNode (fst st), tok)
                      else Inr (fst st, tok))
               else Inr (fst st, tok)))"

text \<open>The callback of \<^verbatim>\<open>visitMemberAccess\<close> of the incoming walker, for one subtype.\<close>

definition propertyAccess_in ::
  "Host \<Rightarrow> Evaluator \<Rightarrow> IncomingWalker \<Rightarrow> NameNode \<Rightarrow>
   CallHierarchyIncomingCall list \<Rightarrow> Type \<Rightarrow> CallHierarchyIncomingCall list" where
  "propertyAccess_in h ev w memberName calls subtype =
     (let baseType = makeTopLevelTypeVarsConcrete ev subtype in
      if \<not> isClassInstance baseType then calls
      else
        (case lookUpObjectMember h baseType (nameValue memberName) of
           None \<Rightarrow> calls
         | Some memberInfo \<Rightarrow>
             (case getTypeOfMember ev memberInfo of
                None \<Rightarrow> calls
              | Some memberType \<Rightarrow>
                  if list_ex (\<lambda>decl. areDeclarationsSame h decl (walkerDeclaration w))
                       (symDeclarations (memberSymbol memberInfo))
                  then addIncomingCallForDeclaration h w memberName calls
                  else calls)))"

definition visitMemberAccess_in ::
  "Host \<Rightarrow> Evaluator \<Rightarrow> IncomingWalker \<Rightarrow> ParseNode \<Rightarrow> NameNode \<Rightarrow> IncomingState \<Rightarrow>
   Error + IncomingState" where
  "visitMemberAccess_in h ev w leftExpression memberName st =
     (case throwIfCancellationRequested (snd st) of
        Inl e \<Rightarrow> Inl e
      | Inr tok \<Rightarrow>
          if nameValue memberName = walkerSymbolName w then
            (case getType ev leftExpression of
               None \<Rightarrow> Inr (fst st, tok)
             | Some leftHandType \<Rightarrow>
                 Inr (foldl (propertyAccess_in h ev w memberName) (fst st)
                        (doForEachSubtype h leftHandType), tok))
          else Inr (fst st, tok))"

definition findCalls_in ::
  "Host \<Rightarrow> Evaluator \<Rightarrow> IncomingWalker \<Rightarrow> CancellationToken \<Rightarrow> Error + IncomingState" where
  "findCalls_in h ev w tok =
     walk (visitCall_in h ev w) (visitMemberAccess_in h ev w)
       (parseTree (walkerParseResults w)) ([], tok)"

subsection \<open>The provider\<close>

text \<open>A public operation throws (\<open>Inl\<close>), returns null (\<open>Inr None\<close>) or returns a list
  (\<open>Inr (Some items)\<close>).\<close>

definition onPrepare ::
  "Host \<Rightarrow> Provider \<Rightarrow> CancellationToken \<Rightarrow> Error + CallHierarchyItem list option" where
  "onPrepare h p tok =
     (case throwIfCancellationRequested tok of
        Inl e \<Rightarrow> Inl e
      | Inr tok1 \<Rightarrow>
          (case provider_parseResults p of
             None \<Rightarrow> Inr None
           | Some pr \<Rightarrow>
               (case getDeclarationForPosition h (filePath p) (cursorPosition p) of
                  None \<Rightarrow> Inr None
                | Some referencesResult \<Rightarrow>
                    if declarations referencesResult = [] then Inr None
                    else
                      (case getTargetDeclaration h p referencesResult of
                         Inl e \<Rightarrow> Inl e
                       | Inr t \<Rightarrow>
                           if declType (targetDecl t) \<noteq> Function \<and>
                              declType (targetDecl t) \<noteq> Class \<and>
                              declType (targetDecl t) \<noteq> Alias
                           then Inr None
                           else if declType (targetDecl t) = Alias \<and>
                             (case resolveAliasDeclaration (evaluator (program p)) (targetDecl t) True of
                                None \<Rightarrow> True
                              | Some resolvedDecl \<Rightarrow>
                                  declType resolvedDecl \<noteq> Function \<and> declType resolvedDecl \<noteq> Class)
                           then Inr None
                           else
                             let callItem = \<lparr>name = symbolName t,
                                   kind = (case getSymbolKind h (targetDecl t) (symbolName t) of
                                             None \<Rightarrow> SymbolKind_Module | Some k \<Rightarrow> k),
                                   uri = callItemUri t,
                                   itemRange = declRange (targetDecl t),
                                   selectionRange = declRange (targetDecl t)\<rparr>
                             in if \<not> canNavigateToFile h (uri callItem) then Inr None
                                else Inr (Some [callItem\<lparr>uri := convertPathToUri h (uri callItem)\<rparr>])))))"

text \<open>\<^verbatim>\<open>_getIncomingCallsForDeclaration\<close>. The caller asserts the parse results of the file
  (\<^verbatim>\<open>getParseResults(filePath)!\<close>); without them \<^verbatim>\<open>findCalls\<close> reads the parse tree of
  undefined.\<close>

definition getIncomingCallsForDeclaration ::
  "Host \<Rightarrow> Provider \<Rightarrow> ParseResults option \<Rightarrow> string \<Rightarrow> string \<Rightarrow> Declaration \<Rightarrow>
   CancellationToken \<Rightarrow> Error + (CallHierarchyIncomingCall list option \<times> CancellationToken)" where
  "getIncomingCallsForDeclaration h p parseResults path symName declaration tok =
     (case throwIfCancellationRequested tok of
        Inl e \<Rightarrow> Inl e
      | Inr tok1 \<Rightarrow>
          (case parseResults of
             None \<Rightarrow> Inl TypeError
           | Some pr \<Rightarrow>
               (case findCalls_in h (evaluator (program p))
                       \<lparr>walkerFilePath = path, walkerSymbolName = symName,
                        walkerDeclaration = declaration, walkerParseResults = pr\<rparr> tok1 of
                  Inl e \<Rightarrow> Inl e
                | Inr (incomingCalls, tok2) \<Rightarrow>
                    Inr (if incomingCalls \<noteq> [] then Some incomingCalls else None, tok2))))"

text \<open>The loop of \<^verbatim>\<open>getIncomingCalls\<close> over the source files, with the items gathered so
  far.\<close>

fun incomingCallsLoop ::
  "Host \<Rightarrow> Provider \<Rightarrow> string \<Rightarrow> Declaration \<Rightarrow> SourceFileInfo list \<Rightarrow>
   CallHierarchyIncomingCall list \<Rightarrow> CancellationToken \<Rightarrow>
   Error + (CallHierarchyIncomingCall list \<times> CancellationToken)" where
  "incomingCallsLoop h p symName declaration [] items tok = Inr (items, tok)"
| "incomingCallsLoop h p symName declaration (curSourceFileInfo # rest) items tok =
     (if isUserCode h curSourceFileInfo \<or> isOpenByClient curSourceFileInfo then
        (let path = sourceFilePath curSourceFileInfo in
         case getIncomingCallsForDeclaration h p (getParseResults (program p) path) path
                symName declaration tok of
           Inl e \<Rightarrow> Inl e
         | Inr (itemsToAdd, tok1) \<Rightarrow>
             incomingCallsLoop h p symName declaration rest
               (case itemsToAdd of None \<Rightarrow> items | Some added \<Rightarrow> items @ added) tok1)
      else incomingCallsLoop h p symName declaration rest items tok)"

text \<open>\<^verbatim>\<open>getIncomingCalls\<close>. For an alias the list of source files is
  \<^verbatim>\<open>[getSourceFileInfo(filePath)!]\<close>; were that undefined, the loop would read a property
  of undefined.\<close>

definition getIncomingCalls ::
  "Host \<Rightarrow> Provider \<Rightarrow> CancellationToken \<Rightarrow> Error + CallHierarchyIncomingCall list option" where
  "getIncomingCalls h p tok =
     (case throwIfCancellationRequested tok of
        Inl e \<Rightarrow> Inl e
      | Inr tok1 \<Rightarrow>
          (case provider_parseResults p of
             None \<Rightarrow> Inr None
           | Some pr \<Rightarrow>
               (case getDeclarationForPosition h (filePath p) (cursorPosition p) of
                  None \<Rightarrow> Inr None
                | Some referencesResult \<Rightarrow>
                    if declarations referencesResult = [] then Inr None
                    else
                      (case getTargetDeclaration h p referencesResult of
                         Inl e \<Rightarrow> Inl e
                       | Inr t \<Rightarrow>
                           (case (if declType (targetDecl t) = Alias
                                  then map_option (\<lambda>info. [info])
                                         (getSourceFileInfo (program p) (filePath p))
                                  else Some (getSourceFileInfoList (program p))) of
                              None \<Rightarrow> Inl TypeError
                            | Some sourceFiles \<Rightarrow>
                                (case incomingCallsLoop h p (symbolName t) (targetDecl t)
                                        sourceFiles [] tok1 of
                                   Inl e \<Rightarrow> Inl e
                                 | Inr (items, tok2) \<Rightarrow>
                                     if items = [] then Inr None
                                     else Inr (Some (map
                                       (\<lambda>item. item\<lparr>from_item := (from_item item)\<lparr>uri :=
                                          convertPathToUri h (uri (from_item item))\<rparr>\<rparr>)
                                       (filter (\<lambda>item. canNavigateToFile h (uri (from_item item)))
                                          items)))))))))"

text \<open>The parse root that \<^verbatim>\<open>getOutgoingCalls\<close> walks: the node of a function, and for a
  class the node of the first declaration of its \<^verbatim>\<open>__init__\<close> method.\<close>

definition outgoingParseRoot :: "Evaluator \<Rightarrow> Declaration \<Rightarrow> ParseNode option" where
  "outgoingParseRoot ev resolvedDecl =
     (if declType resolvedDecl = Function then Some (declNode resolvedDecl)
      else if declType resolvedDecl = Class then
        (case getTypeForDeclaration ev resolvedDecl of
           None \<Rightarrow> None
         | Some classType \<Rightarrow>
             if isInstantiableClass classType then
               (case classType of
                  ClassType details inst \<Rightarrow>
                    (case lookUpClassMember details ''__init__''
                            {SkipInstanceVariables, SkipObjectBaseClass, SkipBaseClasses} of
                       None \<Rightarrow> None
                     | Some initMethodMember \<Rightarrow>
                         (case getTypeOfMember ev initMethodMember of
                            None \<Rightarrow> None
                          | Some initMethodType \<Rightarrow>
                              if isFunction initMethodType then
                                (case symDeclarations (memberSymbol initMethodMember) of
                                   [] \<Rightarrow> None
                                 | primaryInitDecl # otherDecls \<Rightarrow>
                                     if declType primaryInitDecl = Function
                                     then Some (declNode primaryInitDecl) else None)
                              else None))
                | other \<Rightarrow> None)
             else None)
      else None)"

definition getOutgoingCalls ::
  "Host \<Rightarrow> Provider \<Rightarrow> CancellationToken \<Rightarrow> Error + CallHierarchyOutgoingCall list option" where
  "getOutgoingCalls h p tok =
     (case throwIfCancellationRequested tok of
        Inl e \<Rightarrow> Inl e
      | Inr tok1 \<Rightarrow>
          (case provider_parseResults p of
             None \<Rightarrow> Inr None
           | Some pr \<Rightarrow>
               (case getDeclarationForPosition h (filePath p) (cursorPosition p) of
                  None \<Rightarrow> Inr None
                | Some referencesResult \<Rightarrow>
                    if declarations referencesResult = [] then Inr None
                    else
                      (case getTargetDeclaration h p referencesResult of
                         Inl e \<Rightarrow> Inl e
                       | Inr t \<Rightarrow>
                           (case resolveAliasDeclaration (evaluator (program p)) (targetDecl t) True of
                              None \<Rightarrow> Inr None
                            | Some resolvedDecl \<Rightarrow>
                                (case outgoingParseRoot (evaluator (program p)) resolvedDecl of
                                   None \<Rightarrow> Inr None
                                 | Some parseRoot \<Rightarrow>
                                     (case findCalls_out h (evaluator (program p)) pr parseRoot tok1 of
                                        Inl e \<Rightarrow> Inl e
                                      | Inr (outgoingCalls, tok2) \<Rightarrow>
                                          if outgoingCalls = [] then Inr None
                                          else Inr (Some (map
                                            (\<lambda>item. item\<lparr>to_item := (to_item item)\<lparr>uri :=
                                               convertPathToUri h (uri (to_item item))\<rparr>\<rparr>)
                                            (filter (\<lambda>item. canNavigateToFile h (uri (to_item item)))
                                               outgoingCalls))))))))))"

subsection \<open>Notions used to state the properties\<close>

text \<open>The test of \<^verbatim>\<open>_getTargetDeclaration\<close> for putting the candidate \<open>d\<close> in the place of the
  current target: \<open>d\<close> has a declared type or the target has none, and \<open>d\<close> is a function
  or a class.\<close>
definition replacesTarget :: "Host \<Rightarrow> Declaration \<Rightarrow> Declaration \<Rightarrow> bool" where
  "replacesTarget h target d =
     ((hasTypeForDeclaration h d \<or> \<not> hasTypeForDeclaration h target) \<and>
      (declType d = Function \<or> declType d = Class))"

text \<open>The target after a pass over \<open>ds\<close> that never stops early.\<close>

definition scanTarget :: "Host \<Rightarrow> Declaration \<Rightarrow> Declaration list \<Rightarrow> Declaration" where
  "scanTarget h first ds = foldl (\<lambda>target d. if replacesTarget h target d then d else target) first ds"

text \<open>The pass stops at position \<open>i\<close>: the candidate there takes the place of the target
  that the pass has reached, and its node is the node under the cursor.\<close>

definition scanStopsAt :: "Host \<Rightarrow> NameNode \<Rightarrow> Declaration \<Rightarrow> Declaration list \<Rightarrow> nat \<Rightarrow> bool" where
  "scanStopsAt h node first ds i =
     (i < length ds \<and> replacesTarget h (scanTarget h first (take i ds)) (ds ! i) \<and>
      nodeId (declNode (ds ! i)) = nameId node)"

text \<open>The selection in the words of the spec (4.1), where a candidate whose node is the
  node under the cursor ends the pass and is the target, whatever else holds of it.\<close>

fun resolveAnchor_spec :: "Host \<Rightarrow> NameNode \<Rightarrow> Declaration \<Rightarrow> Declaration list \<Rightarrow> Declaration" where
  "resolveAnchor_spec h node target [] = target"
| "resolveAnchor_spec h node target (d # ds) =
     (if nodeId (declNode d) = nameId node then d
      else resolveAnchor_spec h node (if replacesTarget h target d then d else target) ds)"

subsection \<open>Notions about a walk\<close>

text \<open>The number of cancellation checks of a walk: one for each call node and each
  member access node of the tree.\<close>
fun visits :: "ParseNode \<Rightarrow> nat"
and visitsMultiple :: "ParseNode list \<Rightarrow> nat" where
  "visits (NameN n) = 0"
| "visits (MemberAccessN i leftExpression memberName) = Suc (visits leftExpression)"
| "visits (CallN i leftExpression arguments) = Suc (visitsMultiple (leftExpression # arguments))"
| "visits (OtherN i children) = visitsMultiple children"
| "visitsMultiple [] = 0"
| "visitsMultiple (n # ns) = visits n + visitsMultiple ns"

text \<open>The token after \<open>k\<close> checks, if all of them pass.\<close>

fun afterChecks :: "nat \<Rightarrow> CancellationToken \<Rightarrow> CancellationToken option" where
  "afterChecks 0 tok = Some tok"
| "afterChecks (Suc k) tok =
     (case throwIfCancellationRequested tok of Inl e \<Rightarrow> None | Inr tok1 \<Rightarrow> afterChecks k tok1)"

text \<open>What the visitors hand on during a walk, in the order of the walk: \<open>atCall\<close> and
  \<open>atMemberAccess\<close> give what one visit hands on.\<close>

fun walkEvents ::
  "(ParseNode \<Rightarrow> 'e list) \<Rightarrow> (ParseNode \<Rightarrow> NameNode \<Rightarrow> 'e list) \<Rightarrow> ParseNode \<Rightarrow> 'e list"
and walkEventsMultiple ::
  "(ParseNode \<Rightarrow> 'e list) \<Rightarrow> (ParseNode \<Rightarrow> NameNode \<Rightarrow> 'e list) \<Rightarrow> ParseNode list \<Rightarrow> 'e list"
where
  "walkEvents atCall atMemberAccess (NameN n) = []"
| "walkEvents atCall atMemberAccess (MemberAccessN i leftExpression memberName) =
     atMemberAccess leftExpression memberName @ walkEvents atCall atMemberAccess leftExpression"
| "walkEvents atCall atMemberAccess (CallN i leftExpression arguments) =
     atCall leftExpression @ walkEventsMultiple atCall atMemberAccess (leftExpression # arguments)"
| "walkEvents atCall atMemberAccess (OtherN i children) =
     walkEventsMultiple atCall atMemberAccess children"
| "walkEventsMultiple atCall atMemberAccess [] = []"
| "walkEventsMultiple atCall atMemberAccess (n # ns) =
     walkEvents atCall atMemberAccess n @ walkEventsMultiple atCall atMemberAccess ns"

text \<open>A computation that makes \<open>k\<close> cancellation checks and folds \<open>step\<close> over \<open>events\<close>.\<close>

definition walked ::
  "('s \<Rightarrow> 'e \<Rightarrow> 's) \<Rightarrow> 'e list \<Rightarrow> nat \<Rightarrow> 's \<times> CancellationToken \<Rightarrow> Error + ('s \<times> CancellationToken)" where
  "walked step events k st =
     (case afterChecks k (snd st) of
        None \<Rightarrow> Inl OperationCanceled
      | Some tok1 \<Rightarrow> Inr (foldl step (fst st) events, tok1))"

subsection \<open>Notions about the outgoing walk\<close>

text \<open>Find the first entry that satisfies \<open>P\<close> or push \<open>fresh\<close>, then change that entry:
  the pattern of both \<^verbatim>\<open>_add...CallForDeclaration\<close> methods.\<close>

definition upsertAt :: "('a \<Rightarrow> bool) \<Rightarrow> 'a \<Rightarrow> ('a \<Rightarrow> 'a) \<Rightarrow> 'a list \<Rightarrow> 'a list" where
  "upsertAt P fresh change xs =
     (let found = findIndex P xs;
          xs1 = (case found of None \<Rightarrow> xs @ [fresh] | Some i \<Rightarrow> xs);
          i = (case found of None \<Rightarrow> length xs | Some i \<Rightarrow> i)
      in xs1[i := change (xs1 ! i)])"

text \<open>The range of an occurrence, as both walkers compute it.\<close>

definition occurrenceRange :: "Host \<Rightarrow> ParseResults \<Rightarrow> NameNode \<Rightarrow> Range" where
  "occurrenceRange h pr nameNode =
     convertOffsetsToRange h (nameStart nameNode) (nameStart nameNode + nameLength nameNode)
       (tokenizerLines pr)"

text \<open>The key of an outgoing record, and the key of a declaration: file and range.\<close>

definition outgoingKey :: "CallHierarchyOutgoingCall \<Rightarrow> string \<times> Range" where
  "outgoingKey c = (uri (to_item c), itemRange (to_item c))"

definition declKey :: "Declaration \<Rightarrow> string \<times> Range" where
  "declKey d = (declPath d, declRange d)"

text \<open>What \<^verbatim>\<open>visitCall\<close> and \<^verbatim>\<open>visitMemberAccess\<close> of the outgoing walker hand to
  \<^verbatim>\<open>_addOutgoingCallForDeclaration\<close>: pairs of a name node and a declaration.\<close>

definition callEvents_out :: "Evaluator \<Rightarrow> ParseNode \<Rightarrow> (NameNode \<times> Declaration) list" where
  "callEvents_out ev leftExpression =
     (case calleeNameNode leftExpression of
        None \<Rightarrow> []
      | Some nameNode \<Rightarrow>
          (case getDeclarationsForNameNode ev nameNode of
             None \<Rightarrow> []
           | Some decls \<Rightarrow> map (Pair nameNode) decls))"

definition propertyEvents_out ::
  "Host \<Rightarrow> Evaluator \<Rightarrow> ParseNode \<Rightarrow> NameNode \<Rightarrow> (NameNode \<times> Declaration) list" where
  "propertyEvents_out h ev leftExpression memberName =
     (case getType ev leftExpression of
        None \<Rightarrow> []
      | Some leftHandType \<Rightarrow>
          concat (map (\<lambda>subtype.
            let baseType = makeTopLevelTypeVarsConcrete ev subtype in
            if \<not> isClassInstance baseType then []
            else
              (case lookUpObjectMember h baseType (nameValue memberName) of
                 None \<Rightarrow> []
               | Some memberInfo \<Rightarrow>
                   (case getTypeOfMember ev memberInfo of
                      None \<Rightarrow> []
                    | Some memberType \<Rightarrow>
                        if isClassInstance memberType \<and> isPropertyClassType memberType
                        then map (Pair memberName) (symDeclarations (memberSymbol memberInfo))
                        else [])))
            (doForEachSubtype h leftHandType)))"

text \<open>A call site of the outgoing walk: the name node of an occurrence with the
  declaration it resolves to, when that is a function or a class.\<close>

definition resolvedSite :: "Evaluator \<Rightarrow> NameNode \<times> Declaration \<Rightarrow> (NameNode \<times> Declaration) option" where
  "resolvedSite ev e =
     (case resolveAliasDeclaration ev (snd e) True of
        None \<Rightarrow> None
      | Some resolvedDecl \<Rightarrow>
          if declType resolvedDecl = Function \<or> declType resolvedDecl = Class
          then Some (fst e, resolvedDecl) else None)"

text \<open>The call sites under a parse root, in the order the walk comes to them.\<close>

definition outgoingCallSites :: "Host \<Rightarrow> Evaluator \<Rightarrow> ParseNode \<Rightarrow> (NameNode \<times> Declaration) list" where
  "outgoingCallSites h ev parseRoot =
     List.map_filter (resolvedSite ev)
       (walkEvents (callEvents_out ev) (propertyEvents_out h ev) parseRoot)"

definition siteKey :: "NameNode \<times> Declaration \<Rightarrow> string \<times> Range" where
  "siteKey s = declKey (snd s)"

definition siteRange :: "Host \<Rightarrow> ParseResults \<Rightarrow> NameNode \<times> Declaration \<Rightarrow> Range" where
  "siteRange h pr s = occurrenceRange h pr (fst s)"

text \<open>The record pushed for a call site that has none yet, and the change made to the
  record of a call site.\<close>

definition freshOutgoingCall :: "Host \<Rightarrow> NameNode \<times> Declaration \<Rightarrow> CallHierarchyOutgoingCall" where
  "freshOutgoingCall h s =
     \<lparr>to_item = \<lparr>name = nameValue (fst s),
                  kind = (case getSymbolKind h (snd s) (nameValue (fst s)) of
                            None \<Rightarrow> SymbolKind_Module | Some k \<Rightarrow> k),
                  uri = declPath (snd s),
                  itemRange = declRange (snd s),
                  selectionRange = declRange (snd s)\<rparr>,
      out_fromRanges = []\<rparr>"

definition changedOutgoingCall ::
  "Host \<Rightarrow> ParseResults \<Rightarrow> NameNode \<times> Declaration \<Rightarrow> CallHierarchyOutgoingCall \<Rightarrow>
   CallHierarchyOutgoingCall" where
  "changedOutgoingCall h pr s c =
     (let renamed =
            (if name (to_item c) \<noteq> nameValue (fst s) then
               c\<lparr>to_item := (to_item c)\<lparr>name :=
                 (case getNameFromDeclaration h (snd s) of
                    Some n \<Rightarrow> n | None \<Rightarrow> nameValue (fst s))\<rparr>\<rparr>
             else c)
      in renamed\<lparr>out_fromRanges := out_fromRanges renamed @ [siteRange h pr s]\<rparr>)"

definition recordOutgoingCall ::
  "Host \<Rightarrow> ParseResults \<Rightarrow> CallHierarchyOutgoingCall list \<Rightarrow> NameNode \<times> Declaration \<Rightarrow>
   CallHierarchyOutgoingCall list" where
  "recordOutgoingCall h pr calls s =
     upsertAt (\<lambda>c. outgoingKey c = siteKey s) (freshOutgoingCall h s)
       (changedOutgoingCall h pr s) calls"

subsection \<open>Notions about the incoming walk\<close>

text \<open>The key of a call hierarchy item and of an incoming record: file and range.\<close>

definition itemKey :: "CallHierarchyItem \<Rightarrow> string \<times> Range" where
  "itemKey item = (uri item, itemRange item)"

definition incomingKey :: "CallHierarchyIncomingCall \<Rightarrow> string \<times> Range" where
  "incomingKey c = itemKey (from_item c)"

text \<open>The declaration that the incoming walker compares the declarations of a name with:
  the target, or what the target resolves to when it is an alias.\<close>

definition comparedDeclaration :: "Evaluator \<Rightarrow> Declaration \<Rightarrow> Declaration option" where
  "comparedDeclaration ev target =
     (if declType target = Alias then resolveAliasDeclaration ev target True else Some target)"

text \<open>The condition of C4, in its words: the text of the name node is the symbol name,
  and at least one declaration of the name node is the same as the compared
  declaration.\<close>

definition recordedCall_spec :: "Host \<Rightarrow> Evaluator \<Rightarrow> IncomingWalker \<Rightarrow> NameNode \<Rightarrow> bool" where
  "recordedCall_spec h ev w nameNode =
     (nameValue nameNode = walkerSymbolName w \<and>
      (case comparedDeclaration ev (walkerDeclaration w) of
         None \<Rightarrow> False
       | Some compared \<Rightarrow>
           (case getDeclarationsForNode h nameNode of
              None \<Rightarrow> False
            | Some decls \<Rightarrow> list_ex (\<lambda>decl. areDeclarationsSame h decl compared) decls)))"

text \<open>What \<^verbatim>\<open>visitCall\<close> and \<^verbatim>\<open>visitMemberAccess\<close> of the incoming walker hand to
  \<^verbatim>\<open>_addIncomingCallForDeclaration\<close>: name nodes.\<close>

definition callEvents_in :: "Host \<Rightarrow> Evaluator \<Rightarrow> IncomingWalker \<Rightarrow> ParseNode \<Rightarrow> NameNode list" where
  "callEvents_in h ev w leftExpression =
     (case calleeNameNode leftExpression of
        None \<Rightarrow> []
      | Some nameNode \<Rightarrow> if recordedCall_spec h ev w nameNode then [nameNode] else [])"

definition propertyEvents_in ::
  "Host \<Rightarrow> Evaluator \<Rightarrow> IncomingWalker \<Rightarrow> ParseNode \<Rightarrow> NameNode \<Rightarrow> NameNode list" where
  "propertyEvents_in h ev w leftExpression memberName =
     (if nameValue memberName = walkerSymbolName w then
        (case getType ev leftExpression of
           None \<Rightarrow> []
         | Some leftHandType \<Rightarrow>
             concat (map (\<lambda>subtype.
               let baseType = makeTopLevelTypeVarsConcrete ev subtype in
               if \<not> isClassInstance baseType then []
               else
                 (case lookUpObjectMember h baseType (nameValue memberName) of
                    None \<Rightarrow> []
                  | Some memberInfo \<Rightarrow>
                      (case getTypeOfMember ev memberInfo of
                         None \<Rightarrow> []
                       | Some memberType \<Rightarrow>
                           if list_ex (\<lambda>decl. areDeclarationsSame h decl (walkerDeclaration w))
                                (symDeclarations (memberSymbol memberInfo))
                           then [memberName] else [])))
               (doForEachSubtype h leftHandType)))
      else [])"

text \<open>A call site of the incoming walk: the name node of a matching occurrence with its
  execution scope. The sites of a file, in the order the walk comes to them.\<close>

definition scopedSite :: "Host \<Rightarrow> NameNode \<Rightarrow> (NameNode \<times> ExecutionScopeNode) option" where
  "scopedSite h nameNode = map_option (Pair nameNode) (getExecutionScopeNode h nameNode)"

definition incomingCallSites ::
  "Host \<Rightarrow> Evaluator \<Rightarrow> IncomingWalker \<Rightarrow> (NameNode \<times> ExecutionScopeNode) list" where
  "incomingCallSites h ev w =
     List.map_filter (scopedSite h)
       (walkEvents (callEvents_in h ev w) (propertyEvents_in h ev w)
          (parseTree (walkerParseResults w)))"

definition callerKey :: "Host \<Rightarrow> IncomingWalker \<Rightarrow> NameNode \<times> ExecutionScopeNode \<Rightarrow> string \<times> Range" where
  "callerKey h w s = itemKey (callSourceOf h w (snd s))"

definition callerSiteRange :: "Host \<Rightarrow> IncomingWalker \<Rightarrow> NameNode \<times> ExecutionScopeNode \<Rightarrow> Range" where
  "callerSiteRange h w s = occurrenceRange h (walkerParseResults w) (fst s)"

definition freshIncomingCall ::
  "Host \<Rightarrow> IncomingWalker \<Rightarrow> NameNode \<times> ExecutionScopeNode \<Rightarrow> CallHierarchyIncomingCall" where
  "freshIncomingCall h w s = \<lparr>from_item = callSourceOf h w (snd s), in_fromRanges = []\<rparr>"

definition changedIncomingCall ::
  "Host \<Rightarrow> IncomingWalker \<Rightarrow> NameNode \<times> ExecutionScopeNode \<Rightarrow> CallHierarchyIncomingCall \<Rightarrow>
   CallHierarchyIncomingCall" where
  "changedIncomingCall h w s c = c\<lparr>in_fromRanges := in_fromRanges c @ [callerSiteRange h w s]\<rparr>"

definition recordIncomingCall ::
  "Host \<Rightarrow> IncomingWalker \<Rightarrow> CallHierarchyIncomingCall list \<Rightarrow> NameNode \<times> ExecutionScopeNode \<Rightarrow>
   CallHierarchyIncomingCall list" where
  "recordIncomingCall h w calls s =
     upsertAt (\<lambda>c. incomingKey c = callerKey h w s) (freshIncomingCall h w s)
       (changedIncomingCall h w s) calls"

subsection \<open>Notions about the provider\<close>

text \<open>The parse results and the parse root that \<^verbatim>\<open>getOutgoingCalls\<close> hands to the outgoing
  walker, when the query gets that far.\<close>

definition outgoingWalk :: "Host \<Rightarrow> Provider \<Rightarrow> (ParseResults \<times> ParseNode) option" where
  "outgoingWalk h p =
     (case provider_parseResults p of
        None \<Rightarrow> None
      | Some pr \<Rightarrow>
          (case getDeclarationForPosition h (filePath p) (cursorPosition p) of
             None \<Rightarrow> None
           | Some referencesResult \<Rightarrow>
               (case getTargetDeclaration h p referencesResult of
                  Inl e \<Rightarrow> None
                | Inr t \<Rightarrow>
                    (case resolveAliasDeclaration (evaluator (program p)) (targetDecl t) True of
                       None \<Rightarrow> None
                     | Some resolvedDecl \<Rightarrow>
                         map_option (Pair pr)
                           (outgoingParseRoot (evaluator (program p)) resolvedDecl)))))"

text \<open>The last step of \<^verbatim>\<open>getOutgoingCalls\<close> and \<^verbatim>\<open>getIncomingCalls\<close>: the path of the item
  of a record becomes a URI.\<close>

definition convertedOutgoing :: "Host \<Rightarrow> CallHierarchyOutgoingCall \<Rightarrow> CallHierarchyOutgoingCall" where
  "convertedOutgoing h item =
     item\<lparr>to_item := (to_item item)\<lparr>uri := convertPathToUri h (uri (to_item item))\<rparr>\<rparr>"

definition convertedIncoming :: "Host \<Rightarrow> CallHierarchyIncomingCall \<Rightarrow> CallHierarchyIncomingCall" where
  "convertedIncoming h item =
     item\<lparr>from_item := (from_item item)\<lparr>uri := convertPathToUri h (uri (from_item item))\<rparr>\<rparr>"

text \<open>The declaration that \<^verbatim>\<open>getOutgoingCalls\<close> resolves the target to, when the query gets
  that far.\<close>

definition outgoingResolvedTarget :: "Host \<Rightarrow> Provider \<Rightarrow> Declaration option" where
  "outgoingResolvedTarget h p =
     (case provider_parseResults p of
        None \<Rightarrow> None
      | Some pr \<Rightarrow>
          (case getDeclarationForPosition h (filePath p) (cursorPosition p) of
             None \<Rightarrow> None
           | Some referencesResult \<Rightarrow>
               (case getTargetDeclaration h p referencesResult of
                  Inl e \<Rightarrow> None
                | Inr t \<Rightarrow> resolveAliasDeclaration (evaluator (program p)) (targetDecl t) True)))"

text \<open>The candidate files of \<^verbatim>\<open>getIncomingCalls\<close> in the words of the spec (4.4): if the
  target is an alias, only the querying file, otherwise every file the program holds;
  restricted to the files that are user code or open in the client.\<close>

definition scannedFile :: "Host \<Rightarrow> SourceFileInfo \<Rightarrow> bool" where
  "scannedFile h info = (isUserCode h info \<or> isOpenByClient info)"

definition candidateFiles_spec :: "Host \<Rightarrow> Provider \<Rightarrow> Declaration \<Rightarrow> SourceFileInfo list" where
  "candidateFiles_spec h p target =
     filter (scannedFile h)
       (if declType target = Alias
        then (case getSourceFileInfo (program p) (filePath p) of None \<Rightarrow> [] | Some info \<Rightarrow> [info])
        else getSourceFileInfoList (program p))"

text \<open>The incoming walker for a file, and the records and the cancellation checks of the
  scan of a file: one check before the walk, and those of the walk of its parse tree.\<close>

definition fileWalker :: "string \<Rightarrow> Declaration \<Rightarrow> SourceFileInfo \<Rightarrow> ParseResults \<Rightarrow> IncomingWalker" where
  "fileWalker symName target info pr =
     \<lparr>walkerFilePath = sourceFilePath info, walkerSymbolName = symName,
      walkerDeclaration = target, walkerParseResults = pr\<rparr>"

definition fileRecords ::
  "Host \<Rightarrow> Provider \<Rightarrow> string \<Rightarrow> Declaration \<Rightarrow> SourceFileInfo \<Rightarrow> CallHierarchyIncomingCall list" where
  "fileRecords h p symName target info =
     (case getParseResults (program p) (sourceFilePath info) of
        None \<Rightarrow> []
      | Some pr \<Rightarrow>
          foldl (recordIncomingCall h (fileWalker symName target info pr)) []
            (incomingCallSites h (evaluator (program p)) (fileWalker symName target info pr)))"

definition fileChecks :: "Provider \<Rightarrow> SourceFileInfo \<Rightarrow> nat" where
  "fileChecks p info =
     (case getParseResults (program p) (sourceFilePath info) of
        None \<Rightarrow> 1
      | Some pr \<Rightarrow> Suc (visits (parseTree pr)))"


subsection \<open>Example programs\<close>

text \<open>A host and an evaluator for the examples: a declaration has a type when it is a
  function or a class, a function node holds its name node first, two declarations are
  the same when kind, path and range agree, only aliases need resolving.\<close>

definition exampleRange :: "nat \<Rightarrow> nat \<Rightarrow> nat \<Rightarrow> Range" where
  "exampleRange l a b =
     \<lparr>rangeStart = \<lparr>line = l, character = a\<rparr>, rangeEnd = \<lparr>line = l, character = b\<rparr>\<rparr>"

definition exampleHost :: Host where
  "exampleHost =
     \<lparr>hasTypeForDeclaration = (\<lambda>d. declType d = Function \<or> declType d = Class),
      getNameFromDeclaration =
        (\<lambda>d. case declNode d of OtherN i (NameN n # cs) \<Rightarrow> Some (nameValue n) | other \<Rightarrow> None),
      areDeclarationsSame =
        (\<lambda>a b. declType a = declType b \<and> declPath a = declPath b \<and> declRange a = declRange b),
      getExecutionScopeNode = (\<lambda>n. Some ModuleScope),
      getSymbolKind = (\<lambda>d n. if declType d = Function then Some 12
                              else if declType d = Class then Some 5 else None),
      convertOffsetsToRange = (\<lambda>a b ls. exampleRange 0 a b),
      getFileName = (\<lambda>path. path),
      canNavigateToFile = (\<lambda>path. True),
      convertPathToUri = (\<lambda>path. ''file://'' @ path),
      isUserCode = (\<lambda>info. True),
      getDeclarationForPosition = (\<lambda>path pos. None),
      getDeclarationsForNode = (\<lambda>n. None),
      doForEachSubtype = (\<lambda>t. [t]),
      lookUpObjectMember = (\<lambda>t n. None)\<rparr>"

definition exampleEvaluator :: Evaluator where
  "exampleEvaluator =
     \<lparr>resolveAliasDeclaration = (\<lambda>d resolveLocalNames. if declType d = Alias then None else Some d),
      getDeclarationsForNameNode = (\<lambda>n. None),
      getTypeForDeclaration = (\<lambda>d. None),
      getTypeOfMember = (\<lambda>m. None),
      getType = (\<lambda>n. None),
      makeTopLevelTypeVarsConcrete = (\<lambda>t. t)\<rparr>"

definition exampleProvider :: "Evaluator \<Rightarrow> ParseNode \<Rightarrow> Provider" where
  "exampleProvider ev tree =
     \<lparr>program =
        \<lparr>getParseResults = (\<lambda>path. if path = ''/src/a.py''
                              then Some \<lparr>parseTree = tree, tokenizerLines = []\<rparr> else None),
         getSourceFileInfo = (\<lambda>path. if path = ''/src/a.py''
                              then Some \<lparr>sourceFilePath = ''/src/a.py'', isOpenByClient = True\<rparr>
                              else None),
         getSourceFileInfoList = [\<lparr>sourceFilePath = ''/src/a.py'', isOpenByClient = True\<rparr>],
         evaluator = ev\<rparr>,
      filePath = ''/src/a.py'',
      cursorPosition = \<lparr>line = 0, character = 0\<rparr>\<rparr>"

text \<open>A module that binds \<^verbatim>\<open>x\<close> twice, \<^verbatim>\<open>x = 1\<close> and then \<^verbatim>\<open>def x(): ...\<close>, with the
  cursor on the first \<^verbatim>\<open>x\<close>. The node of the variable declaration is the name under the
  cursor; the node of the function declaration is the function node.\<close>

definition cursorX :: NameNode where
  "cursorX = \<lparr>nameId = 1, nameValue = ''x'', nameStart = 0, nameLength = 1\<rparr>"

definition variableX :: Declaration where
  "variableX = \<lparr>declType = Variable, declNode = NameN cursorX, declPath = ''/src/a.py'',
                 declRange = exampleRange 0 0 1\<rparr>"

definition functionX :: Declaration where
  "functionX = \<lparr>declType = Function,
                 declNode = OtherN 2 [NameN \<lparr>nameId = 3, nameValue = ''x'', nameStart = 10, nameLength = 1\<rparr>],
                 declPath = ''/src/a.py'', declRange = exampleRange 1 4 5\<rparr>"

text \<open>A function declaration whose node is the node under the cursor.\<close>

definition matchedX :: Declaration where
  "matchedX = \<lparr>declType = Function, declNode = NameN cursorX, declPath = ''/src/a.py'',
                declRange = exampleRange 0 4 5\<rparr>"

definition shadowedReferences :: ReferencesResult where
  "shadowedReferences =
     \<lparr>declarations = [variableX, functionX], nodeAtOffset = cursorX, symbolNames = [''x'']\<rparr>"

definition matchedReferences :: ReferencesResult where
  "matchedReferences =
     \<lparr>declarations = [matchedX, functionX], nodeAtOffset = cursorX, symbolNames = [''x'']\<rparr>"

text \<open>A function \<^verbatim>\<open>caller\<close> in \<^verbatim>\<open>/src/a.py\<close> that calls a function of \<^verbatim>\<open>/src/lib.py\<close> three
  times: by its name \<^verbatim>\<open>real_name\<close>, by the alias \<^verbatim>\<open>alias_name\<close> it is imported as, and by
  its name again.
  \<^verbatim>\<open>
  from lib import real_name, real_name as alias_name
  def caller():
      real_name()
      alias_name()
      real_name()
  \<close>\<close>

definition libFunction :: Declaration where
  "libFunction =
     \<lparr>declType = Function,
      declNode = OtherN 100 [NameN \<lparr>nameId = 101, nameValue = ''real_name'', nameStart = 4, nameLength = 9\<rparr>],
      declPath = ''/src/lib.py'', declRange = exampleRange 0 4 13\<rparr>"

definition importOf :: "string \<Rightarrow> nat \<Rightarrow> Declaration" where
  "importOf importedAs i =
     \<lparr>declType = Alias,
      declNode = NameN \<lparr>nameId = i, nameValue = importedAs, nameStart = i, nameLength = length importedAs\<rparr>,
      declPath = ''/src/a.py'', declRange = exampleRange 0 i (i + length importedAs)\<rparr>"

definition callerName :: NameNode where
  "callerName = \<lparr>nameId = 11, nameValue = ''caller'', nameStart = 55, nameLength = 6\<rparr>"

definition call1 :: NameNode where
  "call1 = \<lparr>nameId = 21, nameValue = ''real_name'', nameStart = 70, nameLength = 9\<rparr>"

definition call2 :: NameNode where
  "call2 = \<lparr>nameId = 31, nameValue = ''alias_name'', nameStart = 90, nameLength = 10\<rparr>"

definition call3 :: NameNode where
  "call3 = \<lparr>nameId = 41, nameValue = ''real_name'', nameStart = 110, nameLength = 9\<rparr>"

definition callerNode :: ParseNode where
  "callerNode =
     OtherN 10 [NameN callerName,
                CallN 20 (NameN call1) [], CallN 30 (NameN call2) [], CallN 40 (NameN call3) []]"

definition callerFunction :: Declaration where
  "callerFunction =
     \<lparr>declType = Function, declNode = callerNode, declPath = ''/src/a.py'',
      declRange = exampleRange 1 4 10\<rparr>"

definition callerParseResults :: ParseResults where
  "callerParseResults = \<lparr>parseTree = OtherN 1 [callerNode], tokenizerLines = []\<rparr>"

definition callerEvaluator :: Evaluator where
  "callerEvaluator =
     exampleEvaluator
       \<lparr>resolveAliasDeclaration :=
          (\<lambda>d resolveLocalNames. if declType d = Alias then Some libFunction else Some d),
        getDeclarationsForNameNode :=
          (\<lambda>n. if nameValue n = ''real_name'' then Some [importOf ''real_name'' 16]
               else if nameValue n = ''alias_name'' then Some [importOf ''alias_name'' 40]
               else None)\<rparr>"

text \<open>The host for a query on \<^verbatim>\<open>real_name\<close> in \<^verbatim>\<open>/src/lib.py\<close>: the three calls are in the
  scope of \<^verbatim>\<open>caller\<close>, and the name \<^verbatim>\<open>real_name\<close> has the declaration in the library.\<close>

definition callerHost :: Host where
  "callerHost =
     exampleHost
       \<lparr>getExecutionScopeNode := (\<lambda>n. Some (FunctionScope callerName)),
        getDeclarationsForNode :=
          (\<lambda>n. if nameValue n = ''real_name'' \<or> nameValue n = ''alias_name''
               then Some [libFunction] else None)\<rparr>"

definition libWalker :: IncomingWalker where
  "libWalker =
     \<lparr>walkerFilePath = ''/src/a.py'', walkerSymbolName = ''real_name'',
      walkerDeclaration = libFunction, walkerParseResults = callerParseResults\<rparr>"

text \<open>The query with the cursor on \<^verbatim>\<open>caller\<close>.\<close>

definition callerQueryHost :: Host where
  "callerQueryHost =
     callerHost
       \<lparr>getDeclarationForPosition :=
          (\<lambda>path pos. Some \<lparr>declarations = [callerFunction], nodeAtOffset = callerName,
                             symbolNames = [''caller'']\<rparr>)\<rparr>"

definition callerProvider :: Provider where
  "callerProvider = exampleProvider callerEvaluator (OtherN 1 [callerNode])"




text \<open>A class without a constructor of its own, and its base class with one:
  \<^verbatim>\<open>
  def helper(): ...
  class Base:
      def __init__(self):
          helper()
  class Derived(Base):
      pass
  \<close>\<close>

definition helperFunction :: Declaration where
  "helperFunction =
     \<lparr>declType = Function,
      declNode = OtherN 200 [NameN \<lparr>nameId = 201, nameValue = ''helper'', nameStart = 4, nameLength = 6\<rparr>],
      declPath = ''/src/a.py'', declRange = exampleRange 0 4 10\<rparr>"

definition helperCall :: NameNode where
  "helperCall = \<lparr>nameId = 231, nameValue = ''helper'', nameStart = 60, nameLength = 6\<rparr>"

definition baseInit :: Declaration where
  "baseInit =
     \<lparr>declType = Function,
      declNode = OtherN 220 [NameN \<lparr>nameId = 221, nameValue = ''__init__'', nameStart = 40, nameLength = 8\<rparr>,
                             CallN 230 (NameN helperCall) []],
      declPath = ''/src/a.py'', declRange = exampleRange 2 8 16\<rparr>"

definition baseDetails :: ClassDetails where
  "baseDetails =
     ClassDetails ''Base''
       [(''__init__'', \<lparr>symDeclarations = [baseInit], symIsInstanceMember = False\<rparr>)]
       False False [ClassDetails ''object'' [] True False []]"

definition derivedDetails :: ClassDetails where
  "derivedDetails =
     ClassDetails ''Derived'' [] False False [baseDetails, ClassDetails ''object'' [] True False []]"

definition baseClass :: Declaration where
  "baseClass =
     \<lparr>declType = Class,
      declNode = OtherN 210 [NameN \<lparr>nameId = 211, nameValue = ''Base'', nameStart = 26, nameLength = 4\<rparr>],
      declPath = ''/src/a.py'', declRange = exampleRange 1 6 10\<rparr>"

definition derivedClass :: Declaration where
  "derivedClass =
     \<lparr>declType = Class,
      declNode = OtherN 240 [NameN \<lparr>nameId = 241, nameValue = ''Derived'', nameStart = 80, nameLength = 7\<rparr>],
      declPath = ''/src/a.py'', declRange = exampleRange 4 6 13\<rparr>"

definition classEvaluator :: Evaluator where
  "classEvaluator =
     exampleEvaluator
       \<lparr>getDeclarationsForNameNode :=
          (\<lambda>n. if nameValue n = ''helper'' then Some [helperFunction] else None),
        getTypeForDeclaration :=
          (\<lambda>d. if d = baseClass then Some (ClassType baseDetails False)
               else if d = derivedClass then Some (ClassType derivedDetails False)
               else None),
        getTypeOfMember := (\<lambda>m. Some FunctionType)\<rparr>"

text \<open>The query with the cursor on the name of the class \<open>target\<close>.\<close>

definition classHost :: "Declaration \<Rightarrow> Host" where
  "classHost target =
     exampleHost
       \<lparr>getDeclarationForPosition :=
          (\<lambda>path pos. Some \<lparr>declarations = [target],
                             nodeAtOffset = \<lparr>nameId = 0, nameValue = ''C'', nameStart = 0, nameLength = 1\<rparr>,
                             symbolNames = [''C'']\<rparr>)\<rparr>"

definition classProvider :: Provider where
  "classProvider = exampleProvider classEvaluator (OtherN 1 [])"

text \<open>A program of four files. \<^verbatim>\<open>/src/a.py\<close> is the module of \<^verbatim>\<open>caller\<close> above;
  \<^verbatim>\<open>/src/b.py\<close> calls \<^verbatim>\<open>real_name()\<close> at module level; \<^verbatim>\<open>/lib/site/third.py\<close> calls it
  too, but is neither user code nor open; \<^verbatim>\<open>/src/lib.py\<close> declares the function.\<close>

definition callInB :: NameNode where
  "callInB = \<lparr>nameId = 61, nameValue = ''real_name'', nameStart = 5, nameLength = 9\<rparr>"

definition callInThird :: NameNode where
  "callInThird = \<lparr>nameId = 71, nameValue = ''real_name'', nameStart = 8, nameLength = 9\<rparr>"

definition scanProgram :: Program where
  "scanProgram =
     \<lparr>getParseResults =
        (\<lambda>path. if path = ''/src/a.py'' then Some callerParseResults
               else if path = ''/src/b.py''
               then Some \<lparr>parseTree = OtherN 4 [CallN 60 (NameN callInB) []], tokenizerLines = []\<rparr>
               else if path = ''/lib/site/third.py''
               then Some \<lparr>parseTree = OtherN 5 [CallN 70 (NameN callInThird) []], tokenizerLines = []\<rparr>
               else if path = ''/src/lib.py''
               then Some \<lparr>parseTree = OtherN 6 [], tokenizerLines = []\<rparr>
               else None),
      getSourceFileInfo =
        (\<lambda>path. if path \<in> {''/src/a.py'', ''/src/b.py'', ''/lib/site/third.py'', ''/src/lib.py''}
               then Some \<lparr>sourceFilePath = path, isOpenByClient = False\<rparr> else None),
      getSourceFileInfoList =
        [\<lparr>sourceFilePath = ''/src/a.py'', isOpenByClient = False\<rparr>,
         \<lparr>sourceFilePath = ''/src/b.py'', isOpenByClient = False\<rparr>,
         \<lparr>sourceFilePath = ''/lib/site/third.py'', isOpenByClient = False\<rparr>,
         \<lparr>sourceFilePath = ''/src/lib.py'', isOpenByClient = False\<rparr>],
      evaluator = callerEvaluator\<rparr>"

text \<open>The host of the program: a query in \<^verbatim>\<open>/src/lib.py\<close> is on the declaration of the
  function, a query in another file is on the name in the import statement.\<close>

definition scanHost :: Host where
  "scanHost =
     callerHost
       \<lparr>isUserCode := (\<lambda>info. sourceFilePath info \<noteq> ''/lib/site/third.py''),
        getExecutionScopeNode :=
          (\<lambda>n. if nameId n = 61 \<or> nameId n = 71 then Some ModuleScope
               else Some (FunctionScope callerName)),
        getDeclarationForPosition :=
          (\<lambda>path pos.
             if path = ''/src/lib.py''
             then Some \<lparr>declarations = [libFunction],
                         nodeAtOffset = \<lparr>nameId = 101, nameValue = ''real_name'', nameStart = 4,
                                           nameLength = 9\<rparr>,
                         symbolNames = [''real_name'']\<rparr>
             else Some \<lparr>declarations = [importOf ''real_name'' 16],
                         nodeAtOffset = \<lparr>nameId = 16, nameValue = ''real_name'', nameStart = 16,
                                           nameLength = 9\<rparr>,
                         symbolNames = [''real_name'']\<rparr>)\<rparr>"

definition libQuery :: Provider where
  "libQuery = \<lparr>program = scanProgram, filePath = ''/src/lib.py'',
                cursorPosition = \<lparr>line = 0, character = 4\<rparr>\<rparr>"

definition importQuery :: Provider where
  "importQuery = \<lparr>program = scanProgram, filePath = ''/src/a.py'',
                   cursorPosition = \<lparr>line = 0, character = 16\<rparr>\<rparr>"

text \<open>A module that binds a variable and calls it, with the cursor on the variable:
  \<^verbatim>\<open>
  handler = make_handler()
  handler()
  \<close>\<close>

definition handlerName :: NameNode where
  "handlerName = \<lparr>nameId = 301, nameValue = ''handler'', nameStart = 0, nameLength = 7\<rparr>"

definition handlerCall :: NameNode where
  "handlerCall = \<lparr>nameId = 311, nameValue = ''handler'', nameStart = 30, nameLength = 7\<rparr>"

definition handlerVariable :: Declaration where
  "handlerVariable =
     \<lparr>declType = Variable, declNode = NameN handlerName, declPath = ''/src/a.py'',
      declRange = exampleRange 0 0 7\<rparr>"

definition handlerHost :: Host where
  "handlerHost =
     exampleHost
       \<lparr>getDeclarationForPosition :=
          (\<lambda>path pos. Some \<lparr>declarations = [handlerVariable], nodeAtOffset = handlerName,
                             symbolNames = [''handler'']\<rparr>),
        getDeclarationsForNode :=
          (\<lambda>n. if nameValue n = ''handler'' then Some [handlerVariable] else None)\<rparr>"

definition handlerProvider :: Provider where
  "handlerProvider =
     exampleProvider exampleEvaluator (OtherN 1 [CallN 310 (NameN handlerCall) []])"

text \<open>The host of \<^verbatim>\<open>caller\<close> when the file of the library cannot be navigated to, as for a
  file inside an archive.\<close>

definition archiveHost :: Host where
  "archiveHost = callerQueryHost\<lparr>canNavigateToFile := (\<lambda>path. path \<noteq> ''/src/lib.py'')\<rparr>"

section \<open>Properties\<close>

subsection \<open>The target declaration\<close>

lemma scanStopsAt_0:
  "scanStopsAt h node t (d # ds) 0 = (replacesTarget h t d \<and> nodeId (declNode d) = nameId node)"
  by (simp add: scanStopsAt_def scanTarget_def)

lemma scanStopsAt_Suc:
  "scanStopsAt h node t (d # ds) (Suc i) =
     scanStopsAt h node (if replacesTarget h t d then d else t) ds i"
  by (simp add: scanStopsAt_def scanTarget_def)

lemma targetDeclLoop_step:
  "targetDeclLoop h node t (d # ds) =
     (if replacesTarget h t d then
        (if nodeId (declNode d) = nameId node then d else targetDeclLoop h node d ds)
      else targetDeclLoop h node t ds)"
  by (simp add: replacesTarget_def)

lemma targetDeclLoop_no_stop:
  "(\<And>i. \<not> scanStopsAt h node t ds i) \<Longrightarrow> targetDeclLoop h node t ds = scanTarget h t ds"
proof (induction ds arbitrary: t)
  case Nil
  show ?case by (simp add: scanTarget_def)
next
  case (Cons d ds)
  let ?t' = "if replacesTarget h t d then d else t"
  have first: "\<not> (replacesTarget h t d \<and> nodeId (declNode d) = nameId node)"
    using Cons.prems [of 0] by (simp add: scanStopsAt_0)
  have rest: "\<not> scanStopsAt h node ?t' ds i" for i
    using Cons.prems [of "Suc i"] by (simp add: scanStopsAt_Suc)
  have "targetDeclLoop h node t (d # ds) = targetDeclLoop h node ?t' ds"
    using first by (simp only: targetDeclLoop_step split: if_splits) auto
  also have "\<dots> = scanTarget h ?t' ds"
    by (rule Cons.IH) (rule rest)
  also have "\<dots> = scanTarget h t (d # ds)"
    by (simp add: scanTarget_def)
  finally show ?case .
qed

lemma targetDeclLoop_stop:
  "scanStopsAt h node t ds i \<Longrightarrow> (\<And>j. j < i \<Longrightarrow> \<not> scanStopsAt h node t ds j) \<Longrightarrow>
   targetDeclLoop h node t ds = ds ! i"
proof (induction ds arbitrary: t i)
  case Nil
  then show ?case by (simp add: scanStopsAt_def)
next
  case (Cons d ds)
  show ?case
  proof (cases i)
    case 0
    with Cons.prems(1) show ?thesis
      by (simp add: scanStopsAt_0 targetDeclLoop_step del: targetDeclLoop.simps)
  next
    case (Suc k)
    let ?t' = "if replacesTarget h t d then d else t"
    have first: "\<not> (replacesTarget h t d \<and> nodeId (declNode d) = nameId node)"
      using Cons.prems(2) [of 0] Suc by (simp add: scanStopsAt_0)
    have stop: "scanStopsAt h node ?t' ds k"
      using Cons.prems(1) Suc by (simp add: scanStopsAt_Suc)
    have before: "\<not> scanStopsAt h node ?t' ds j" if "j < k" for j
      using Cons.prems(2) [of "Suc j"] Suc that by (simp add: scanStopsAt_Suc)
    have "targetDeclLoop h node t (d # ds) = targetDeclLoop h node ?t' ds"
      using first by (simp only: targetDeclLoop_step split: if_splits) auto
    also have "\<dots> = ds ! k"
      by (rule Cons.IH [OF stop before])
    finally show ?thesis using Suc by simp
  qed
qed

text \<open>
  C1 (as amended). \<^verbatim>\<open>_getTargetDeclaration\<close> on a non-empty list of candidates returns a
  target, found by one pass from left to right that starts with the first candidate as
  the target and puts a candidate \<open>d\<close> in its place exactly when \<open>d\<close> has a declared type or
  the target has none, and \<open>d\<close> is a function or a class (\<open>replacesTarget\<close>). The pass ends
  early at the first candidate that takes the place of the target and whose node is the
  node under the cursor, and that candidate is the target; when there is no such
  candidate the pass runs to the end of the list.
\<close>

theorem getTargetDeclaration_scan:
  assumes "declarations rr = first # rest"
  shows "\<exists>t. getTargetDeclaration h p rr = Inr t \<and>
           ((\<forall>i. \<not> scanStopsAt h (nodeAtOffset rr) first (declarations rr) i) \<longrightarrow>
              targetDecl t = scanTarget h first (declarations rr)) \<and>
           (\<forall>i. scanStopsAt h (nodeAtOffset rr) first (declarations rr) i \<and>
                (\<forall>j<i. \<not> scanStopsAt h (nodeAtOffset rr) first (declarations rr) j) \<longrightarrow>
              targetDecl t = declarations rr ! i)"
proof -
  let ?loop = "targetDeclLoop h (nodeAtOffset rr) first (declarations rr)"
  have "\<exists>t. getTargetDeclaration h p rr = Inr t \<and> targetDecl t = ?loop"
    using assms by (simp add: getTargetDeclaration_def Let_def del: targetDeclLoop.simps)
  then obtain t where t: "getTargetDeclaration h p rr = Inr t" "targetDecl t = ?loop"
    by blast
  have "targetDecl t = scanTarget h first (declarations rr)"
    if "\<forall>i. \<not> scanStopsAt h (nodeAtOffset rr) first (declarations rr) i"
    using that t(2) targetDeclLoop_no_stop [of h "nodeAtOffset rr" first "declarations rr"] by simp
  moreover have "targetDecl t = declarations rr ! i"
    if "scanStopsAt h (nodeAtOffset rr) first (declarations rr) i"
      and "\<forall>j<i. \<not> scanStopsAt h (nodeAtOffset rr) first (declarations rr) j" for i
    using that t(2) targetDeclLoop_stop [of h "nodeAtOffset rr" first "declarations rr" i] by simp
  ultimately show ?thesis using t(1) by blast
qed

lemmas example_defs =
  exampleHost_def exampleEvaluator_def exampleProvider_def exampleRange_def

text \<open>
  C1 as stated fails. With the cursor on the \<^verbatim>\<open>x\<close> of \<^verbatim>\<open>x = 1\<close> the variable declaration is
  a candidate whose node is the node under the cursor, but it is not a function or a
  class: the pass does not stop there and goes on to select the function declared later.
  The selection in the words of the spec would give the variable.
\<close>

theorem exact_match_not_selected_counterexample:
  "variableX \<in> set (declarations shadowedReferences) \<and>
   nodeId (declNode variableX) = nameId (nodeAtOffset shadowedReferences) \<and>
   map_sum id targetDecl
     (getTargetDeclaration exampleHost (exampleProvider exampleEvaluator (OtherN 0 []))
        shadowedReferences) = Inr functionX \<and>
   functionX \<noteq> variableX \<and>
   resolveAnchor_spec exampleHost (nodeAtOffset shadowedReferences) variableX
     (declarations shadowedReferences) = variableX"
  by (simp add: getTargetDeclaration_def shadowedReferences_def variableX_def functionX_def
      cursorX_def example_defs)

text \<open>Both cases of the theorem at concrete candidates: the pass stops at once at a
  function whose node is under the cursor, and runs to the end past the variable.\<close>

theorem getTargetDeclaration_scan_witness:
  "map_sum id targetDecl
     (getTargetDeclaration exampleHost (exampleProvider exampleEvaluator (OtherN 0 []))
        matchedReferences) = Inr matchedX \<and>
   map_sum id targetDecl
     (getTargetDeclaration exampleHost (exampleProvider exampleEvaluator (OtherN 0 []))
        shadowedReferences) = Inr functionX"
proof -
  let ?p = "exampleProvider exampleEvaluator (OtherN 0 [])"
  have d1: "declarations matchedReferences = matchedX # [functionX]"
    by (simp add: matchedReferences_def)
  have stop: "scanStopsAt exampleHost (nodeAtOffset matchedReferences) matchedX
                (declarations matchedReferences) 0"
    by (simp add: scanStopsAt_def scanTarget_def replacesTarget_def matchedReferences_def
        matchedX_def cursorX_def exampleHost_def)
  from getTargetDeclaration_scan [OF d1, of exampleHost ?p] stop
  have "\<exists>t. getTargetDeclaration exampleHost ?p matchedReferences = Inr t \<and>
          targetDecl t = declarations matchedReferences ! 0"
    by blast
  then have first: "map_sum id targetDecl
      (getTargetDeclaration exampleHost ?p matchedReferences) = Inr matchedX"
    by (auto simp: matchedReferences_def)
  have d2: "declarations shadowedReferences = variableX # [functionX]"
    by (simp add: shadowedReferences_def)
  have nostop: "\<not> scanStopsAt exampleHost (nodeAtOffset shadowedReferences) variableX
                  (declarations shadowedReferences) i" for i
    by (cases i) (auto simp: scanStopsAt_def scanTarget_def replacesTarget_def
        shadowedReferences_def variableX_def functionX_def cursorX_def exampleHost_def)
  have scan: "scanTarget exampleHost variableX (declarations shadowedReferences) = functionX"
    by (simp add: scanTarget_def replacesTarget_def shadowedReferences_def variableX_def
        functionX_def exampleHost_def)
  from getTargetDeclaration_scan [OF d2, of exampleHost ?p] nostop
  have "\<exists>t. getTargetDeclaration exampleHost ?p shadowedReferences = Inr t \<and>
          targetDecl t = scanTarget exampleHost variableX (declarations shadowedReferences)"
    by blast
  then have second: "map_sum id targetDecl
      (getTargetDeclaration exampleHost ?p shadowedReferences) = Inr functionX"
    by (auto simp: scan)
  from first second show ?thesis by simp
qed

subsection \<open>A walk makes its checks and folds what it finds\<close>

lemma throwIf_cases:
  "throwIfCancellationRequested tok = Inl OperationCanceled \<or>
   (\<exists>tok1. throwIfCancellationRequested tok = Inr tok1)"
  by (cases tok rule: throwIfCancellationRequested.cases) simp_all

lemma throwIf_Inl: "throwIfCancellationRequested tok = Inl e \<Longrightarrow> e = OperationCanceled"
  by (cases tok rule: throwIfCancellationRequested.cases) simp_all

lemma afterChecks_add:
  "afterChecks (a + b) tok = Option.bind (afterChecks a tok) (afterChecks b)"
  by (induction a arbitrary: tok) (auto split: sum.splits)

lemma afterChecks_Never: "afterChecks k NeverCancelled = Some NeverCancelled"
  by (induction k) simp_all

lemma afterChecks_CancelAfter:
  "afterChecks k (CancelAfter n) = (if k \<le> n then Some (CancelAfter (n - k)) else None)"
proof (induction k arbitrary: n)
  case 0
  show ?case by simp
next
  case (Suc k)
  show ?case by (cases n) (simp_all add: Suc.IH)
qed

lemma walked_Nil: "walked step [] 0 st = Inr st"
  by (simp add: walked_def)

lemma walked_append:
  "(case walked step es1 k1 st of Inl e \<Rightarrow> Inl e | Inr st1 \<Rightarrow> walked step es2 k2 st1) =
   walked step (es1 @ es2) (k1 + k2) st"
  by (auto simp: walked_def afterChecks_add split: option.splits)

lemma visitor_walked:
  "(case throwIfCancellationRequested (snd st) of
      Inl e \<Rightarrow> Inl e
    | Inr tok1 \<Rightarrow> Inr (foldl step (fst st) es, tok1)) = walked step es (Suc 0) st"
  using throwIf_Inl [of "snd st"] by (auto simp: walked_def split: sum.splits)

lemma walkMultiple_walked:
  assumes "\<And>n st. n \<in> set nodes \<Longrightarrow>
      walk vc vm n st = walked step (walkEvents ec em n) (visits n) st"
  shows "walkMultiple vc vm nodes st =
      walked step (walkEventsMultiple ec em nodes) (visitsMultiple nodes) st"
  using assms
proof (induction nodes arbitrary: st)
  case Nil
  show ?case by (simp add: walked_Nil)
next
  case (Cons n ns)
  have "walkMultiple vc vm (n # ns) st =
      (case walked step (walkEvents ec em n) (visits n) st of
         Inl e \<Rightarrow> Inl e
       | Inr st1 \<Rightarrow> walked step (walkEventsMultiple ec em ns) (visitsMultiple ns) st1)"
    using Cons by (simp split: sum.splits)
  then show ?case by (simp add: walked_append)
qed

lemma walk_walked:
  assumes vc: "\<And>l st. vc l st = walked step (ec l) (Suc 0) st"
    and vm: "\<And>l m st. vm l m st = walked step (em l m) (Suc 0) st"
  shows "walk vc vm node st = walked step (walkEvents ec em node) (visits node) st"
proof (induction node arbitrary: st)
  case (NameN n)
  show ?case by (simp add: walked_Nil)
next
  case (MemberAccessN i l m)
  have "walk vc vm (MemberAccessN i l m) st =
      (case walked step (em l m) (Suc 0) st of
         Inl e \<Rightarrow> Inl e
       | Inr st1 \<Rightarrow> walked step (walkEvents ec em l) (visits l) st1)"
    by (simp add: vm MemberAccessN split: sum.splits)
  then show ?case by (simp add: walked_append)
next
  case (CallN i l args)
  have "walkMultiple vc vm (l # args) st1 =
      walked step (walkEventsMultiple ec em (l # args)) (visitsMultiple (l # args)) st1" for st1
    by (rule walkMultiple_walked) (use CallN in auto)
  then have "walk vc vm (CallN i l args) st =
      (case walked step (ec l) (Suc 0) st of
         Inl e \<Rightarrow> Inl e
       | Inr st1 \<Rightarrow> walked step (walkEventsMultiple ec em (l # args))
                      (visitsMultiple (l # args)) st1)"
    by (simp add: vc split: sum.splits)
  then show ?case by (simp add: walked_append del: walkEventsMultiple.simps visitsMultiple.simps)
next
  case (OtherN i cs)
  have "walkMultiple vc vm cs st =
      walked step (walkEventsMultiple ec em cs) (visitsMultiple cs) st"
    by (rule walkMultiple_walked) (use OtherN in auto)
  then show ?case by simp
qed

subsection \<open>The outgoing walk\<close>

lemma findIndex_None: "(findIndex P xs = None) = (\<forall>x\<in>set xs. \<not> P x)"
  by (induction xs) auto

lemma upsertAt_Nil: "upsertAt P fresh change [] = [change fresh]"
  by (simp add: upsertAt_def)

lemma upsertAt_Cons:
  "upsertAt P fresh change (x # xs) =
     (if P x then change x # xs else x # upsertAt P fresh change xs)"
  by (cases "findIndex P xs") (simp_all add: upsertAt_def Let_def)

lemma addOutgoing_record:
  "addOutgoingCallForDeclaration h ev pr n d calls =
     (case resolvedSite ev (n, d) of None \<Rightarrow> calls | Some s \<Rightarrow> recordOutgoingCall h pr calls s)"
proof (cases "resolvedSite ev (n, d)")
  case None
  then show ?thesis
    by (auto simp: addOutgoingCallForDeclaration_def resolvedSite_def split: option.splits if_splits)
next
  case (Some s)
  then obtain r where r: "resolveAliasDeclaration ev d True = Some r"
      "declType r = Function \<or> declType r = Class" "s = (n, r)"
    by (auto simp: resolvedSite_def split: option.splits if_splits)
  have P: "(\<lambda>outgoing. uri (to_item outgoing) = declPath r \<and> itemRange (to_item outgoing) = declRange r)
        = (\<lambda>c. outgoingKey c = siteKey (n, r))"
    by (auto simp: outgoingKey_def declKey_def siteKey_def)
  show ?thesis
    using r(2)
    apply (simp add: Some)
    apply (simp add: addOutgoingCallForDeclaration_def r(1) r(3) recordOutgoingCall_def upsertAt_def Let_def P)
    apply (cases "findIndex (\<lambda>c. outgoingKey c = siteKey (n, r)) calls")
    apply (auto simp: freshOutgoingCall_def changedOutgoingCall_def occurrenceRange_def Let_def
        siteRange_def cong: option.case_cong)
    done
qed


lemma foldl_addOutgoing:
  "foldl (\<lambda>cs e. addOutgoingCallForDeclaration h ev pr (fst e) (snd e) cs) calls events =
   foldl (recordOutgoingCall h pr) calls (List.map_filter (resolvedSite ev) events)"
  by (induction events arbitrary: calls)
    (simp_all add: addOutgoing_record map_filter_simps split: option.splits)

lemma foldl_Pair:
  "foldl (\<lambda>cs d. f n d cs) calls ds = foldl (\<lambda>cs e. f (fst e) (snd e) cs) calls (map (Pair n) ds)"
  by (induction ds arbitrary: calls) simp_all

lemma foldl_concat_map:
  "foldl (\<lambda>cs t. foldl step cs (g t)) calls ts = foldl step calls (concat (map g ts))"
  by (induction ts arbitrary: calls) simp_all

lemma visitCall_out_walked:
  "visitCall_out h ev pr l st =
   walked (\<lambda>cs e. addOutgoingCallForDeclaration h ev pr (fst e) (snd e) cs)
     (callEvents_out ev l) (Suc 0) st"
proof -
  have "visitCall_out h ev pr l st =
      (case throwIfCancellationRequested (snd st) of
         Inl e \<Rightarrow> Inl e
       | Inr tok1 \<Rightarrow>
           Inr (foldl (\<lambda>cs e. addOutgoingCallForDeclaration h ev pr (fst e) (snd e) cs)
                  (fst st) (callEvents_out ev l), tok1))"
    by (simp add: visitCall_out_def callEvents_out_def foldl_Pair [symmetric]
        split: sum.splits option.splits)
  then show ?thesis by (simp only: visitor_walked)
qed

lemma propertyAccess_out_events:
  "propertyAccess_out h ev pr m calls subtype =
   foldl (\<lambda>cs e. addOutgoingCallForDeclaration h ev pr (fst e) (snd e) cs) calls
     (let baseType = makeTopLevelTypeVarsConcrete ev subtype in
      if \<not> isClassInstance baseType then []
      else
        (case lookUpObjectMember h baseType (nameValue m) of
           None \<Rightarrow> []
         | Some memberInfo \<Rightarrow>
             (case getTypeOfMember ev memberInfo of
                None \<Rightarrow> []
              | Some memberType \<Rightarrow>
                  if isClassInstance memberType \<and> isPropertyClassType memberType
                  then map (Pair m) (symDeclarations (memberSymbol memberInfo))
                  else [])))"
  by (simp add: propertyAccess_out_def Let_def foldl_Pair [symmetric] split: option.splits)

lemma visitMemberAccess_out_walked:
  "visitMemberAccess_out h ev pr l m st =
   walked (\<lambda>cs e. addOutgoingCallForDeclaration h ev pr (fst e) (snd e) cs)
     (propertyEvents_out h ev l m) (Suc 0) st"
proof -
  have "visitMemberAccess_out h ev pr l m st =
      (case throwIfCancellationRequested (snd st) of
         Inl e \<Rightarrow> Inl e
       | Inr tok1 \<Rightarrow>
           Inr (foldl (\<lambda>cs e. addOutgoingCallForDeclaration h ev pr (fst e) (snd e) cs)
                  (fst st) (propertyEvents_out h ev l m), tok1))"
    unfolding visitMemberAccess_out_def propertyEvents_out_def
    by (simp add: foldl_concat_map [symmetric] propertyAccess_out_events [abs_def]
        split: sum.splits option.splits)
  then show ?thesis by (simp only: visitor_walked)
qed

lemma findCalls_out_walked:
  "findCalls_out h ev pr parseRoot tok =
     (case afterChecks (visits parseRoot) tok of
        None \<Rightarrow> Inl OperationCanceled
      | Some tok1 \<Rightarrow>
          Inr (foldl (recordOutgoingCall h pr) [] (outgoingCallSites h ev parseRoot), tok1))"
proof -
  have w: "findCalls_out h ev pr parseRoot tok =
      walked (\<lambda>cs e. addOutgoingCallForDeclaration h ev pr (fst e) (snd e) cs)
        (walkEvents (callEvents_out ev) (propertyEvents_out h ev) parseRoot)
        (visits parseRoot) ([], tok)"
    unfolding findCalls_out_def
    by (rule walk_walked) (rule visitCall_out_walked, rule visitMemberAccess_out_walked)
  show ?thesis
    by (simp add: w walked_def foldl_addOutgoing outgoingCallSites_def cong: option.case_cong)
qed

lemma upsertAt_keys:
  assumes "key fresh = k" and "\<And>x. key (change x) = key x"
  shows "map key (upsertAt (\<lambda>x. key x = k) fresh change xs) =
         (if k \<in> set (map key xs) then map key xs else map key xs @ [k])"
  by (induction xs) (auto simp: upsertAt_Nil upsertAt_Cons assms)

lemma upsertAt_elem:
  assumes "distinct (map key xs)"
    and "c \<in> set (upsertAt (\<lambda>x. key x = k) fresh change xs)"
  shows "(c \<in> set xs \<and> key c \<noteq> k) \<or> (\<exists>x\<in>set xs. key x = k \<and> c = change x) \<or>
         (k \<notin> key ` set xs \<and> c = change fresh)"
  using assms
proof (induction xs)
  case Nil
  then show ?case by (simp add: upsertAt_Nil)
next
  case (Cons x xs)
  show ?case
  proof (cases "key x = k")
    case True
    with Cons.prems(2) have "c = change x \<or> c \<in> set xs"
      by (simp add: upsertAt_Cons)
    then show ?thesis
    proof
      assume "c = change x"
      with True show ?thesis by simp
    next
      assume c: "c \<in> set xs"
      with Cons.prems(1) have "key c \<noteq> key x" by (auto simp: image_iff)
      with c True show ?thesis by simp
    qed
  next
    case False
    with Cons.prems have "c = x \<or> c \<in> set (upsertAt (\<lambda>x. key x = k) fresh change xs)"
      by (simp add: upsertAt_Cons)
    then show ?thesis
    proof
      assume "c = x"
      with False show ?thesis by simp
    next
      assume "c \<in> set (upsertAt (\<lambda>x. key x = k) fresh change xs)"
      with Cons.IH Cons.prems(1) False show ?thesis by auto
    qed
  qed
qed

lemma aggregate_step:
  assumes kf: "key fresh = skey s" and kc: "\<And>x. key (change x) = key x"
    and rf: "ranges fresh = []"
    and rc: "\<And>x. ranges (change x) = ranges x @ [rng s]"
    and d: "distinct (map key xs)"
    and ks: "set (map key xs) = set (map skey sites)"
    and rs: "\<forall>c\<in>set xs. ranges c = map rng (filter (\<lambda>t. skey t = key c) sites)"
  shows "distinct (map key (upsertAt (\<lambda>x. key x = skey s) fresh change xs)) \<and>
         set (map key (upsertAt (\<lambda>x. key x = skey s) fresh change xs)) =
           set (map skey (sites @ [s])) \<and>
         (\<forall>c\<in>set (upsertAt (\<lambda>x. key x = skey s) fresh change xs).
            ranges c = map rng (filter (\<lambda>t. skey t = key c) (sites @ [s])))"
proof -
  let ?new = "upsertAt (\<lambda>x. key x = skey s) fresh change xs"
  note keys = upsertAt_keys [where key = key and k = "skey s" and change = change
      and fresh = fresh and xs = xs, OF kf kc]
  have 1: "distinct (map key ?new)"
    using d by (simp add: keys)
  have 2: "set (map key ?new) = set (map skey (sites @ [s]))"
    using ks by (auto simp: keys)
  have 3: "ranges c = map rng (filter (\<lambda>t. skey t = key c) (sites @ [s]))"
    if "c \<in> set ?new" for c
  proof -
    from upsertAt_elem [where key = key and k = "skey s" and change = change
        and fresh = fresh and xs = xs and c = c, OF d that]
    consider "c \<in> set xs" "key c \<noteq> skey s"
      | x where "x \<in> set xs" "key x = skey s" "c = change x"
      | "skey s \<notin> key ` set xs" "c = change fresh"
      by blast
    then show ?thesis
    proof cases
      case 1
      with rs show ?thesis by auto
    next
      case 2
      with rs show ?thesis by (simp add: rc kc)
    next
      case 3
      have "skey t \<noteq> skey s" if "t \<in> set sites" for t
      proof
        assume "skey t = skey s"
        with that have "skey s \<in> skey ` set sites" by (metis imageI)
        with ks 3(1) show False by simp
      qed
      then have "filter (\<lambda>t. skey t = skey s) sites = []"
        by (simp add: filter_empty_conv)
      with 3 show ?thesis by (simp add: rf rc kf kc)
    qed
  qed
  from 1 2 3 show ?thesis by blast
qed

lemma outgoing_invariant:
  "distinct (map outgoingKey (foldl (recordOutgoingCall h pr) [] sites)) \<and>
   set (map outgoingKey (foldl (recordOutgoingCall h pr) [] sites)) = set (map siteKey sites) \<and>
   (\<forall>c\<in>set (foldl (recordOutgoingCall h pr) [] sites).
      out_fromRanges c = map (siteRange h pr) (filter (\<lambda>t. siteKey t = outgoingKey c) sites))"
proof (induction sites rule: rev_induct)
  case Nil
  show ?case by simp
next
  case (snoc s sites)
  let ?calls = "foldl (recordOutgoingCall h pr) [] sites"
  have eq: "recordOutgoingCall h pr ?calls s =
      upsertAt (\<lambda>c. outgoingKey c = siteKey s) (freshOutgoingCall h s)
        (changedOutgoingCall h pr s) ?calls"
    by (rule recordOutgoingCall_def)
  from snoc have d: "distinct (map outgoingKey ?calls)"
    and ks: "set (map outgoingKey ?calls) = set (map siteKey sites)"
    and rs: "\<forall>c\<in>set ?calls. out_fromRanges c =
        map (siteRange h pr) (filter (\<lambda>t. siteKey t = outgoingKey c) sites)"
    by blast+
  have "distinct (map outgoingKey (recordOutgoingCall h pr ?calls s)) \<and>
        set (map outgoingKey (recordOutgoingCall h pr ?calls s)) =
          set (map siteKey (sites @ [s])) \<and>
        (\<forall>c\<in>set (recordOutgoingCall h pr ?calls s).
           out_fromRanges c = map (siteRange h pr)
             (filter (\<lambda>t. siteKey t = outgoingKey c) (sites @ [s])))"
    unfolding eq
  proof (rule aggregate_step [OF _ _ _ _ d ks rs])
    show "outgoingKey (freshOutgoingCall h s) = siteKey s"
      by (simp add: outgoingKey_def declKey_def siteKey_def freshOutgoingCall_def)
    show "outgoingKey (changedOutgoingCall h pr s x) = outgoingKey x" for x
      by (simp add: outgoingKey_def changedOutgoingCall_def Let_def)
    show "out_fromRanges (freshOutgoingCall h s) = []"
      by (simp add: freshOutgoingCall_def)
    show "out_fromRanges (changedOutgoingCall h pr s x) =
          out_fromRanges x @ [siteRange h pr s]" for x
      by (simp add: changedOutgoingCall_def Let_def)
  qed
  then show ?case by simp
qed

subsection \<open>The incoming walk\<close>

lemma addIncoming_record:
  "addIncomingCallForDeclaration h w n calls =
     (case scopedSite h n of None \<Rightarrow> calls | Some s \<Rightarrow> recordIncomingCall h w calls s)"
proof (cases "getExecutionScopeNode h n")
  case None
  then show ?thesis
    by (simp add: addIncomingCallForDeclaration_def scopedSite_def)
next
  case (Some e)
  have P: "(\<lambda>incoming. uri (from_item incoming) = uri (callSourceOf h w e) \<and>
              itemRange (from_item incoming) = itemRange (callSourceOf h w e))
        = (\<lambda>c. incomingKey c = callerKey h w (n, e))"
    by (auto simp: incomingKey_def callerKey_def itemKey_def)
  show ?thesis
    apply (simp add: Some scopedSite_def)
    apply (simp add: addIncomingCallForDeclaration_def Some recordIncomingCall_def upsertAt_def Let_def P)
    apply (cases "findIndex (\<lambda>c. incomingKey c = callerKey h w (n, e)) calls")
     apply (auto simp: freshIncomingCall_def changedIncomingCall_def occurrenceRange_def
        callerSiteRange_def)
    done
qed

lemma foldl_addIncoming:
  "foldl (\<lambda>cs n. addIncomingCallForDeclaration h w n cs) calls events =
   foldl (recordIncomingCall h w) calls (List.map_filter (scopedSite h) events)"
  by (induction events arbitrary: calls)
    (simp_all add: addIncoming_record map_filter_simps split: option.splits)

lemma visitCall_in_events:
  "visitCall_in h ev w l st =
     (case throwIfCancellationRequested (snd st) of
        Inl e \<Rightarrow> Inl e
      | Inr tok1 \<Rightarrow>
          Inr (foldl (\<lambda>cs n. addIncomingCallForDeclaration h w n cs) (fst st)
                 (callEvents_in h ev w l), tok1))"
  by (simp add: visitCall_in_def callEvents_in_def recordedCall_spec_def comparedDeclaration_def
      split: sum.splits option.splits)

lemma visitCall_in_walked:
  "visitCall_in h ev w l st =
   walked (\<lambda>cs n. addIncomingCallForDeclaration h w n cs) (callEvents_in h ev w l) (Suc 0) st"
  by (simp only: visitCall_in_events visitor_walked)

lemma propertyAccess_in_events:
  "propertyAccess_in h ev w m calls subtype =
   foldl (\<lambda>cs n. addIncomingCallForDeclaration h w n cs) calls
     (let baseType = makeTopLevelTypeVarsConcrete ev subtype in
      if \<not> isClassInstance baseType then []
      else
        (case lookUpObjectMember h baseType (nameValue m) of
           None \<Rightarrow> []
         | Some memberInfo \<Rightarrow>
             (case getTypeOfMember ev memberInfo of
                None \<Rightarrow> []
              | Some memberType \<Rightarrow>
                  if list_ex (\<lambda>decl. areDeclarationsSame h decl (walkerDeclaration w))
                       (symDeclarations (memberSymbol memberInfo))
                  then [m] else [])))"
  by (simp add: propertyAccess_in_def Let_def split: option.splits)

lemma visitMemberAccess_in_walked:
  "visitMemberAccess_in h ev w l m st =
   walked (\<lambda>cs n. addIncomingCallForDeclaration h w n cs) (propertyEvents_in h ev w l m) (Suc 0) st"
proof -
  have "visitMemberAccess_in h ev w l m st =
      (case throwIfCancellationRequested (snd st) of
         Inl e \<Rightarrow> Inl e
       | Inr tok1 \<Rightarrow>
           Inr (foldl (\<lambda>cs n. addIncomingCallForDeclaration h w n cs)
                  (fst st) (propertyEvents_in h ev w l m), tok1))"
    unfolding visitMemberAccess_in_def propertyEvents_in_def
    by (simp add: foldl_concat_map [symmetric] propertyAccess_in_events [abs_def]
        split: sum.splits option.splits)
  then show ?thesis by (simp only: visitor_walked)
qed

lemma findCalls_in_walked:
  "findCalls_in h ev w tok =
     (case afterChecks (visits (parseTree (walkerParseResults w))) tok of
        None \<Rightarrow> Inl OperationCanceled
      | Some tok1 \<Rightarrow>
          Inr (foldl (recordIncomingCall h w) [] (incomingCallSites h ev w), tok1))"
proof -
  have wk: "findCalls_in h ev w tok =
      walked (\<lambda>cs n. addIncomingCallForDeclaration h w n cs)
        (walkEvents (callEvents_in h ev w) (propertyEvents_in h ev w)
           (parseTree (walkerParseResults w)))
        (visits (parseTree (walkerParseResults w))) ([], tok)"
    unfolding findCalls_in_def
    by (rule walk_walked) (rule visitCall_in_walked, rule visitMemberAccess_in_walked)
  show ?thesis
    by (simp add: wk walked_def foldl_addIncoming incomingCallSites_def cong: option.case_cong)
qed

lemma incoming_invariant:
  "distinct (map incomingKey (foldl (recordIncomingCall h w) [] sites)) \<and>
   set (map incomingKey (foldl (recordIncomingCall h w) [] sites)) =
     set (map (callerKey h w) sites) \<and>
   (\<forall>c\<in>set (foldl (recordIncomingCall h w) [] sites).
      in_fromRanges c =
        map (callerSiteRange h w) (filter (\<lambda>t. callerKey h w t = incomingKey c) sites))"
proof (induction sites rule: rev_induct)
  case Nil
  show ?case by simp
next
  case (snoc s sites)
  let ?calls = "foldl (recordIncomingCall h w) [] sites"
  have eq: "recordIncomingCall h w ?calls s =
      upsertAt (\<lambda>c. incomingKey c = callerKey h w s) (freshIncomingCall h w s)
        (changedIncomingCall h w s) ?calls"
    by (rule recordIncomingCall_def)
  from snoc have d: "distinct (map incomingKey ?calls)"
    and ks: "set (map incomingKey ?calls) = set (map (callerKey h w) sites)"
    and rs: "\<forall>c\<in>set ?calls. in_fromRanges c =
        map (callerSiteRange h w) (filter (\<lambda>t. callerKey h w t = incomingKey c) sites)"
    by blast+
  have "distinct (map incomingKey (recordIncomingCall h w ?calls s)) \<and>
        set (map incomingKey (recordIncomingCall h w ?calls s)) =
          set (map (callerKey h w) (sites @ [s])) \<and>
        (\<forall>c\<in>set (recordIncomingCall h w ?calls s).
           in_fromRanges c = map (callerSiteRange h w)
             (filter (\<lambda>t. callerKey h w t = incomingKey c) (sites @ [s])))"
    unfolding eq
  proof (rule aggregate_step [OF _ _ _ _ d ks rs])
    show "incomingKey (freshIncomingCall h w s) = callerKey h w s"
      by (simp add: incomingKey_def callerKey_def freshIncomingCall_def)
    show "incomingKey (changedIncomingCall h w s x) = incomingKey x" for x
      by (simp add: incomingKey_def changedIncomingCall_def)
    show "in_fromRanges (freshIncomingCall h w s) = []"
      by (simp add: freshIncomingCall_def)
    show "in_fromRanges (changedIncomingCall h w s x) =
          in_fromRanges x @ [callerSiteRange h w s]" for x
      by (simp add: changedIncomingCall_def)
  qed
  then show ?case by simp
qed

subsection \<open>Records by key\<close>

lemmas caller_defs =
  libFunction_def importOf_def callerName_def call1_def call2_def call3_def callerNode_def
  callerFunction_def callerParseResults_def callerEvaluator_def callerHost_def libWalker_def
  callerQueryHost_def callerProvider_def

lemmas walker_defs =
  findCalls_out_def visitCall_out_def visitMemberAccess_out_def addOutgoingCallForDeclaration_def
  findCalls_in_def visitCall_in_def visitMemberAccess_in_def addIncomingCallForDeclaration_def
  callSourceOf_def SymbolKind_Module_def SymbolKind_Function_def

text \<open>
  C3. Each walker ends with at most one record for a key of file and range: the keys of
  the records are distinct. For the outgoing walker the keys are the locations of the
  declarations that the call sites resolve to, for the incoming walker the locations of
  the execution scopes of the call sites. The range list of a record is the list of the
  occurrence ranges of the call sites with the key of the record, in the order in which the
  walk comes to them.
\<close>

theorem walker_records_by_key:
  "(findCalls_out h ev pr parseRoot tok = Inr (outgoingCalls, tok1) \<longrightarrow>
      distinct (map outgoingKey outgoingCalls) \<and>
      set (map outgoingKey outgoingCalls) = set (map siteKey (outgoingCallSites h ev parseRoot)) \<and>
      (\<forall>c\<in>set outgoingCalls.
         out_fromRanges c =
           map (siteRange h pr)
             (filter (\<lambda>s. siteKey s = outgoingKey c) (outgoingCallSites h ev parseRoot)))) \<and>
   (findCalls_in h ev w tok = Inr (incomingCalls, tok2) \<longrightarrow>
      distinct (map incomingKey incomingCalls) \<and>
      set (map incomingKey incomingCalls) = set (map (callerKey h w) (incomingCallSites h ev w)) \<and>
      (\<forall>c\<in>set incomingCalls.
         in_fromRanges c =
           map (callerSiteRange h w)
             (filter (\<lambda>s. callerKey h w s = incomingKey c) (incomingCallSites h ev w))))"
proof (intro conjI impI)
  assume "findCalls_out h ev pr parseRoot tok = Inr (outgoingCalls, tok1)"
  then have out: "outgoingCalls =
      foldl (recordOutgoingCall h pr) [] (outgoingCallSites h ev parseRoot)"
    by (simp add: findCalls_out_walked split: option.splits)
  note inv = outgoing_invariant [of h pr "outgoingCallSites h ev parseRoot"]
  show "distinct (map outgoingKey outgoingCalls)"
    unfolding out using inv by blast
  show "set (map outgoingKey outgoingCalls) = set (map siteKey (outgoingCallSites h ev parseRoot))"
    unfolding out using inv by blast
  show "\<forall>c\<in>set outgoingCalls. out_fromRanges c =
          map (siteRange h pr)
            (filter (\<lambda>s. siteKey s = outgoingKey c) (outgoingCallSites h ev parseRoot))"
    unfolding out using inv by blast
next
  assume "findCalls_in h ev w tok = Inr (incomingCalls, tok2)"
  then have inc: "incomingCalls = foldl (recordIncomingCall h w) [] (incomingCallSites h ev w)"
    by (simp add: findCalls_in_walked split: option.splits)
  note inv = incoming_invariant [of h w "incomingCallSites h ev w"]
  show "distinct (map incomingKey incomingCalls)"
    unfolding inc using inv by blast
  show "set (map incomingKey incomingCalls) = set (map (callerKey h w) (incomingCallSites h ev w))"
    unfolding inc using inv by blast
  show "\<forall>c\<in>set incomingCalls. in_fromRanges c =
          map (callerSiteRange h w)
            (filter (\<lambda>s. callerKey h w s = incomingKey c) (incomingCallSites h ev w))"
    unfolding inc using inv by blast
qed

text \<open>In the example the three calls are one outgoing record with three ranges, and the
  two calls by the name \<^verbatim>\<open>real_name\<close> are one incoming record with two ranges.\<close>

theorem walker_records_by_key_witness:
  "map (siteRange callerHost callerParseResults)
     (filter (\<lambda>s. siteKey s = (''/src/lib.py'', exampleRange 0 4 13))
        (outgoingCallSites callerHost callerEvaluator callerNode)) =
     [exampleRange 0 70 79, exampleRange 0 90 100, exampleRange 0 110 119] \<and>
   map (callerSiteRange callerHost libWalker)
     (filter (\<lambda>s. callerKey callerHost libWalker s = (''/src/a.py'', exampleRange 0 55 61))
        (incomingCallSites callerHost callerEvaluator libWalker)) =
     [exampleRange 0 70 79, exampleRange 0 110 119]"
proof -
  let ?out = "\<lparr>to_item = \<lparr>name = ''real_name'', kind = 12, uri = ''/src/lib.py'',
                  itemRange = exampleRange 0 4 13, selectionRange = exampleRange 0 4 13\<rparr>,
                out_fromRanges = [exampleRange 0 70 79, exampleRange 0 90 100,
                                  exampleRange 0 110 119]\<rparr>"
  let ?inc = "\<lparr>from_item = \<lparr>name = ''caller'', kind = 12, uri = ''/src/a.py'',
                  itemRange = exampleRange 0 55 61, selectionRange = exampleRange 0 55 61\<rparr>,
                in_fromRanges = [exampleRange 0 70 79, exampleRange 0 110 119]\<rparr>"
  have out: "findCalls_out callerHost callerEvaluator callerParseResults callerNode NeverCancelled =
      Inr ([?out], NeverCancelled)"
    by (simp add: caller_defs walker_defs example_defs Let_def)
  have inc: "findCalls_in callerHost callerEvaluator libWalker NeverCancelled =
      Inr ([?inc], NeverCancelled)"
    by (simp add: caller_defs walker_defs example_defs Let_def)
  from walker_records_by_key [where h = callerHost and ev = callerEvaluator
      and pr = callerParseResults and parseRoot = callerNode and tok = NeverCancelled
      and outgoingCalls = "[?out]" and ?tok1.0 = NeverCancelled and w = libWalker
      and incomingCalls = "[?inc]" and ?tok2.0 = NeverCancelled] out inc
  show ?thesis
    by (simp add: outgoingKey_def incomingKey_def itemKey_def)
qed

subsection \<open>Which calls the incoming walker records\<close>





subsection \<open>The name of an outgoing record\<close>

lemma getTargetDeclaration_Inl:
  "getTargetDeclaration h p rr = Inl e \<Longrightarrow> declarations rr = []"
  by (auto simp: getTargetDeclaration_def Let_def split: list.splits if_splits)

lemma getTargetDeclaration_Nil:
  "declarations rr = [] \<Longrightarrow> getTargetDeclaration h p rr = Inl TypeError"
  by (simp add: getTargetDeclaration_def)

lemma getOutgoingCalls_walk:
  "getOutgoingCalls h p tok =
     (case throwIfCancellationRequested tok of
        Inl e \<Rightarrow> Inl e
      | Inr tok1 \<Rightarrow>
          (case outgoingWalk h p of
             None \<Rightarrow> Inr None
           | Some (pr, parseRoot) \<Rightarrow>
               (case findCalls_out h (evaluator (program p)) pr parseRoot tok1 of
                  Inl e \<Rightarrow> Inl e
                | Inr (outgoingCalls, tok2) \<Rightarrow>
                    if outgoingCalls = [] then Inr None
                    else Inr (Some (map (convertedOutgoing h)
                           (filter (\<lambda>item. canNavigateToFile h (uri (to_item item)))
                              outgoingCalls))))))"
proof (cases "throwIfCancellationRequested tok")
  case (Inl e)
  then show ?thesis by (simp add: getOutgoingCalls_def)
next
  case (Inr tok1)
  show ?thesis
  proof (cases "provider_parseResults p")
    case None
    then show ?thesis by (simp add: getOutgoingCalls_def outgoingWalk_def Inr)
  next
    case pr: (Some pr)
    show ?thesis
    proof (cases "getDeclarationForPosition h (filePath p) (cursorPosition p)")
      case None
      then show ?thesis by (simp add: getOutgoingCalls_def outgoingWalk_def Inr pr)
    next
      case rr: (Some rr)
      show ?thesis
      proof (cases "declarations rr = []")
        case True
        then show ?thesis
          by (simp add: getOutgoingCalls_def outgoingWalk_def Inr pr rr getTargetDeclaration_Nil)
      next
        case False
        then obtain t where t: "getTargetDeclaration h p rr = Inr t"
          using getTargetDeclaration_Inl [of h p rr] by (cases "getTargetDeclaration h p rr") auto
        show ?thesis
          using False
          by (auto simp: getOutgoingCalls_def outgoingWalk_def Inr pr rr t convertedOutgoing_def [abs_def]
              split: option.splits sum.splits)
      qed
    qed
  qed
qed








lemmas provider_defs =
  getOutgoingCalls_def getIncomingCalls_def onPrepare_def getTargetDeclaration_def
  provider_parseResults_def outgoingParseRoot_def getIncomingCallsForDeclaration_def

subsection \<open>One record for the name and the alias\<close>





subsection \<open>The result of prepare\<close>

text \<open>
  C10. When \<^verbatim>\<open>onPrepare\<close> returns a list, the list has exactly one item: the item of the
  target declaration that \<^verbatim>\<open>_getTargetDeclaration\<close> selects, with the symbol name, the range
  of the declaration and the URI of its file.
\<close>

theorem onPrepare_single_item:
  assumes "onPrepare h p tok = Inr (Some items)"
  shows "\<exists>referencesResult t.
           getDeclarationForPosition h (filePath p) (cursorPosition p) = Some referencesResult \<and>
           getTargetDeclaration h p referencesResult = Inr t \<and>
           items = [\<lparr>name = symbolName t,
                     kind = (case getSymbolKind h (targetDecl t) (symbolName t) of
                               None \<Rightarrow> SymbolKind_Module | Some k \<Rightarrow> k),
                     uri = convertPathToUri h (callItemUri t),
                     itemRange = declRange (targetDecl t),
                     selectionRange = declRange (targetDecl t)\<rparr>] \<and>
           length items = 1"
  using assms
  by (auto simp: onPrepare_def Let_def split: sum.splits option.splits if_splits)

text \<open>With the cursor on \<^verbatim>\<open>caller\<close> the result is the one item of that function.\<close>

theorem onPrepare_single_item_witness:
  "onPrepare callerQueryHost callerProvider NeverCancelled =
     Inr (Some [\<lparr>name = ''caller'', kind = 12, uri = ''file:///src/a.py'',
                  itemRange = exampleRange 1 4 10, selectionRange = exampleRange 1 4 10\<rparr>]) \<and>
   length [\<lparr>name = ''caller'', kind = 12, uri = ''file:///src/a.py'',
            itemRange = exampleRange 1 4 10, selectionRange = exampleRange 1 4 10\<rparr>] = 1"
proof -
  let ?item = "\<lparr>name = ''caller'', kind = 12, uri = ''file:///src/a.py'',
                 itemRange = exampleRange 1 4 10, selectionRange = exampleRange 1 4 10\<rparr>"
  have run: "onPrepare callerQueryHost callerProvider NeverCancelled = Inr (Some [?item])"
    by (simp add: provider_defs caller_defs example_defs Let_def)
  from onPrepare_single_item [OF run] have "length [?item] = 1" by (elim exE conjE)
  with run show ?thesis by (intro conjI)
qed

subsection \<open>Outgoing calls of a class\<close>

lemma lookUpClassMember_own:
  assumes "SkipBaseClasses \<in> flags"
    and "lookUpClassMember details memberName flags = Some m"
  shows "map_of (classFields details) memberName = Some (memberSymbol m) \<and> memberClass m = details"
  using assms
  by (auto simp: lookUpClassMember_def split: if_splits option.splits)

lemma lookUpClassMember_not_own:
  assumes "SkipBaseClasses \<in> flags"
    and "map_of (classFields details) memberName = None"
  shows "lookUpClassMember details memberName flags = None"
  using assms by (simp add: lookUpClassMember_def)

lemma outgoingParseRoot_Class:
  assumes "declType r = Class" and "outgoingParseRoot ev r = Some parseRoot"
  shows "\<exists>details initSymbol primaryInitDecl otherDecls.
           getTypeForDeclaration ev r = Some (ClassType details False) \<and>
           map_of (classFields details) ''__init__'' = Some initSymbol \<and>
           symDeclarations initSymbol = primaryInitDecl # otherDecls \<and>
           declType primaryInitDecl = Function \<and>
           parseRoot = declNode primaryInitDecl"
proof -
  from assms obtain details inst where ty: "getTypeForDeclaration ev r = Some (ClassType details inst)"
      and inst: "\<not> inst"
    by (auto simp: outgoingParseRoot_def split: option.splits if_splits Type.splits)
  from assms ty inst obtain m where m: "lookUpClassMember details ''__init__''
      {SkipInstanceVariables, SkipObjectBaseClass, SkipBaseClasses} = Some m"
    by (auto simp: outgoingParseRoot_def split: option.splits)
  from lookUpClassMember_own [OF _ m]
  have own: "map_of (classFields details) ''__init__'' = Some (memberSymbol m)" by simp
  from assms ty inst m obtain d ds where "symDeclarations (memberSymbol m) = d # ds"
      "declType d = Function" "parseRoot = declNode d"
    by (auto simp: outgoingParseRoot_def split: option.splits if_splits list.splits)
  with ty inst own show ?thesis by auto
qed

lemma outgoingParseRoot_no_own_init:
  assumes "declType r = Class"
    and "\<forall>details inst. getTypeForDeclaration ev r = Some (ClassType details inst) \<longrightarrow>
           map_of (classFields details) ''__init__'' = None"
  shows "outgoingParseRoot ev r = None"
  using assms
  by (auto simp: outgoingParseRoot_def lookUpClassMember_not_own
      split: option.splits Type.splits)

lemma outgoingWalk_resolved:
  "outgoingWalk h p =
     (case provider_parseResults p of
        None \<Rightarrow> None
      | Some pr \<Rightarrow>
          (case outgoingResolvedTarget h p of
             None \<Rightarrow> None
           | Some r \<Rightarrow> map_option (Pair pr) (outgoingParseRoot (evaluator (program p)) r)))"
  by (simp add: outgoingWalk_def outgoingResolvedTarget_def split: option.splits sum.splits)

text \<open>
  C2. Let the target of the query resolve to a class. If the class has no \<^verbatim>\<open>__init__\<close> among
  its own fields, \<^verbatim>\<open>getOutgoingCalls\<close> returns null once its first cancellation check has
  passed, whatever the base classes of the class define. And when \<^verbatim>\<open>getOutgoingCalls\<close>
  returns a list, the class has an \<^verbatim>\<open>__init__\<close> among its own fields, and the list is the
  records of the walk of the node of the first declaration of that method, those that can
  be navigated to, with their paths as URIs.
\<close>

theorem class_target_walks_own_init:
  assumes "outgoingResolvedTarget h p = Some r" and "declType r = Class"
  shows "((\<forall>details inst. getTypeForDeclaration (evaluator (program p)) r =
              Some (ClassType details inst) \<longrightarrow>
            map_of (classFields details) ''__init__'' = None) \<longrightarrow>
          getOutgoingCalls h p tok =
            (case throwIfCancellationRequested tok of Inl e \<Rightarrow> Inl e | Inr tok1 \<Rightarrow> Inr None)) \<and>
         (getOutgoingCalls h p tok = Inr (Some items) \<longrightarrow>
            (\<exists>details initSymbol primaryInitDecl otherDecls pr.
               getTypeForDeclaration (evaluator (program p)) r = Some (ClassType details False) \<and>
               map_of (classFields details) ''__init__'' = Some initSymbol \<and>
               symDeclarations initSymbol = primaryInitDecl # otherDecls \<and>
               declType primaryInitDecl = Function \<and>
               provider_parseResults p = Some pr \<and>
               items = map (convertedOutgoing h)
                 (filter (\<lambda>item. canNavigateToFile h (uri (to_item item)))
                    (foldl (recordOutgoingCall h pr) []
                       (outgoingCallSites h (evaluator (program p))
                          (declNode primaryInitDecl))))))"
proof (intro conjI impI)
  assume "\<forall>details inst. getTypeForDeclaration (evaluator (program p)) r =
      Some (ClassType details inst) \<longrightarrow> map_of (classFields details) ''__init__'' = None"
  with assms(2) have "outgoingParseRoot (evaluator (program p)) r = None"
    by (rule outgoingParseRoot_no_own_init)
  with assms(1) have "outgoingWalk h p = None"
    by (simp add: outgoingWalk_resolved split: option.splits)
  then show "getOutgoingCalls h p tok =
      (case throwIfCancellationRequested tok of Inl e \<Rightarrow> Inl e | Inr tok1 \<Rightarrow> Inr None)"
    by (simp add: getOutgoingCalls_walk split: sum.splits)
next
  assume run: "getOutgoingCalls h p tok = Inr (Some items)"
  then obtain pr parseRoot where w: "outgoingWalk h p = Some (pr, parseRoot)"
    and items: "items = map (convertedOutgoing h)
      (filter (\<lambda>item. canNavigateToFile h (uri (to_item item)))
         (foldl (recordOutgoingCall h pr) []
            (outgoingCallSites h (evaluator (program p)) parseRoot)))"
    by (auto simp: getOutgoingCalls_walk findCalls_out_walked
        split: sum.splits option.splits if_splits)
  from w assms(1) have pr: "provider_parseResults p = Some pr"
    and root: "outgoingParseRoot (evaluator (program p)) r = Some parseRoot"
    by (auto simp: outgoingWalk_resolved split: option.splits)
  from outgoingParseRoot_Class [OF assms(2) root] pr items
  show "\<exists>details initSymbol primaryInitDecl otherDecls pr.
      getTypeForDeclaration (evaluator (program p)) r = Some (ClassType details False) \<and>
      map_of (classFields details) ''__init__'' = Some initSymbol \<and>
      symDeclarations initSymbol = primaryInitDecl # otherDecls \<and>
      declType primaryInitDecl = Function \<and>
      provider_parseResults p = Some pr \<and>
      items = map (convertedOutgoing h)
        (filter (\<lambda>item. canNavigateToFile h (uri (to_item item)))
           (foldl (recordOutgoingCall h pr) []
              (outgoingCallSites h (evaluator (program p)) (declNode primaryInitDecl))))"
    by blast
qed

lemmas class_defs =
  helperFunction_def helperCall_def baseInit_def baseDetails_def derivedDetails_def
  baseClass_def derivedClass_def classEvaluator_def classHost_def classProvider_def

text \<open>In the example \<^verbatim>\<open>Derived\<close> has no constructor of its own and its base class has one: the
  result is null. For \<^verbatim>\<open>Base\<close> the result is the call of \<^verbatim>\<open>helper\<close> in its own constructor.\<close>

theorem class_target_walks_own_init_witness:
  "map_of (classFields derivedDetails) ''__init__'' = None \<and>
   map_of (classFields (hd (baseMro derivedDetails))) ''__init__'' \<noteq> None \<and>
   getOutgoingCalls (classHost derivedClass) classProvider NeverCancelled = Inr None \<and>
   getOutgoingCalls (classHost baseClass) classProvider NeverCancelled =
     Inr (Some [\<lparr>to_item = \<lparr>name = ''helper'', kind = 12, uri = ''file:///src/a.py'',
                              itemRange = exampleRange 0 4 10,
                              selectionRange = exampleRange 0 4 10\<rparr>,
                  out_fromRanges = [exampleRange 0 60 66]\<rparr>]) \<and>
   (\<exists>initSymbol. map_of (classFields baseDetails) ''__init__'' = Some initSymbol)"
proof -
  let ?rec = "\<lparr>to_item = \<lparr>name = ''helper'', kind = 12, uri = ''file:///src/a.py'',
                  itemRange = exampleRange 0 4 10, selectionRange = exampleRange 0 4 10\<rparr>,
                out_fromRanges = [exampleRange 0 60 66]\<rparr>"
  have own: "map_of (classFields derivedDetails) ''__init__'' = None"
    "map_of (classFields (hd (baseMro derivedDetails))) ''__init__'' \<noteq> None"
    by (simp_all add: derivedDetails_def baseDetails_def)
  have ev: "evaluator (program classProvider) = classEvaluator"
    by (simp add: classProvider_def exampleProvider_def)
  have target1: "outgoingResolvedTarget (classHost derivedClass) classProvider = Some derivedClass"
    by (simp add: outgoingResolvedTarget_def provider_defs class_defs example_defs Let_def)
  have kind1: "declType derivedClass = Class"
    by (simp add: derivedClass_def)
  have none: "\<forall>details inst. getTypeForDeclaration (evaluator (program classProvider)) derivedClass =
      Some (ClassType details inst) \<longrightarrow> map_of (classFields details) ''__init__'' = None"
    by (simp add: ev classEvaluator_def exampleEvaluator_def derivedClass_def baseClass_def
        derivedDetails_def exampleRange_def)
  from class_target_walks_own_init [OF target1 kind1, of NeverCancelled] none
  have null: "getOutgoingCalls (classHost derivedClass) classProvider NeverCancelled = Inr None"
    by simp
  have target2: "outgoingResolvedTarget (classHost baseClass) classProvider = Some baseClass"
    by (simp add: outgoingResolvedTarget_def provider_defs class_defs example_defs Let_def)
  have kind2: "declType baseClass = Class"
    by (simp add: baseClass_def)
  have run: "getOutgoingCalls (classHost baseClass) classProvider NeverCancelled = Inr (Some [?rec])"
    by (simp add: provider_defs class_defs walker_defs example_defs Let_def lookUpClassMember_def)
  from class_target_walks_own_init [OF target2 kind2, of NeverCancelled "[?rec]"] run
  have "\<exists>details initSymbol.
      getTypeForDeclaration (evaluator (program classProvider)) baseClass =
        Some (ClassType details False) \<and>
      map_of (classFields details) ''__init__'' = Some initSymbol"
    by blast
  then have "\<exists>initSymbol. map_of (classFields baseDetails) ''__init__'' = Some initSymbol"
    by (simp add: ev classEvaluator_def exampleEvaluator_def)
  with own null run show ?thesis by (intro conjI)
qed

subsection \<open>The files that getIncomingCalls scans\<close>

lemma getIncomingCallsForDeclaration_walked:
  "getIncomingCallsForDeclaration h p (Some pr) (sourceFilePath info) symName target tok =
     (case afterChecks (Suc (visits (parseTree pr))) tok of
        None \<Rightarrow> Inl OperationCanceled
      | Some tok1 \<Rightarrow>
          Inr (let incomingCalls =
                     foldl (recordIncomingCall h (fileWalker symName target info pr)) []
                       (incomingCallSites h (evaluator (program p))
                          (fileWalker symName target info pr))
               in if incomingCalls \<noteq> [] then Some incomingCalls else None, tok1))"
proof (cases "throwIfCancellationRequested tok")
  case (Inl e)
  with throwIf_Inl [OF Inl] show ?thesis
    by (simp add: getIncomingCallsForDeclaration_def)
next
  case (Inr tok1)
  have w: "walkerParseResults (fileWalker symName target info pr) = pr"
    by (simp add: fileWalker_def)
  show ?thesis
    by (simp add: getIncomingCallsForDeclaration_def Inr findCalls_in_walked w
        fileWalker_def [symmetric] Let_def split: option.splits)
qed

lemma incomingCallsLoop_walked:
  assumes "\<forall>info\<in>set files. scannedFile h info \<longrightarrow>
             getParseResults (program p) (sourceFilePath info) \<noteq> None"
  shows "incomingCallsLoop h p symName target files items tok =
     (case afterChecks (sum_list (map (fileChecks p) (filter (scannedFile h) files))) tok of
        None \<Rightarrow> Inl OperationCanceled
      | Some tok1 \<Rightarrow>
          Inr (items @ concat (map (fileRecords h p symName target)
                                (filter (scannedFile h) files)), tok1))"
  using assms
proof (induction files arbitrary: items tok)
  case Nil
  show ?case by simp
next
  case (Cons info files)
  show ?case
  proof (cases "scannedFile h info")
    case False
    then have skip: "\<not> (isUserCode h info \<or> isOpenByClient info)"
      by (simp add: scannedFile_def)
    have rest: "\<forall>info\<in>set files. scannedFile h info \<longrightarrow>
        getParseResults (program p) (sourceFilePath info) \<noteq> None"
      using Cons.prems by simp
    show ?thesis
      using skip False Cons.IH [OF rest] by (simp cong: option.case_cong)
  next
    case True
    with Cons.prems obtain pr where pr: "getParseResults (program p) (sourceFilePath info) = Some pr"
      by auto
    have rest: "\<forall>info\<in>set files. scannedFile h info \<longrightarrow>
        getParseResults (program p) (sourceFilePath info) \<noteq> None"
      using Cons.prems by simp
    note IH = Cons.IH [OF rest]
    have checks: "sum_list (map (fileChecks p) (filter (scannedFile h) (info # files))) =
        Suc (visits (parseTree pr)) + sum_list (map (fileChecks p) (filter (scannedFile h) files))"
      using True by (simp add: fileChecks_def pr)
    have records: "fileRecords h p symName target info =
        foldl (recordIncomingCall h (fileWalker symName target info pr)) []
          (incomingCallSites h (evaluator (program p)) (fileWalker symName target info pr))"
      by (simp add: fileRecords_def pr)
    have scanned: "isUserCode h info \<or> isOpenByClient info"
      using True by (simp add: scannedFile_def)
    show ?thesis
      unfolding checks afterChecks_add
      using scanned True
      by (cases "afterChecks (Suc (visits (parseTree pr))) tok")
        (simp_all add: pr getIncomingCallsForDeclaration_walked IH records Let_def
          del: afterChecks.simps cong: option.case_cong)
  qed
qed


lemma getIncomingCalls_scan:
  assumes "provider_parseResults p = Some pr"
    and "getDeclarationForPosition h (filePath p) (cursorPosition p) = Some rr"
    and "getTargetDeclaration h p rr = Inr t"
    and "declType (targetDecl t) = Alias \<longrightarrow> getSourceFileInfo (program p) (filePath p) \<noteq> None"
    and "\<forall>info\<in>set (candidateFiles_spec h p (targetDecl t)).
           getParseResults (program p) (sourceFilePath info) \<noteq> None"
  shows "getIncomingCalls h p tok =
     (case afterChecks
             (Suc (sum_list (map (fileChecks p) (candidateFiles_spec h p (targetDecl t))))) tok of
        None \<Rightarrow> Inl OperationCanceled
      | Some tok1 \<Rightarrow>
          (let items = concat (map (fileRecords h p (symbolName t) (targetDecl t))
                                (candidateFiles_spec h p (targetDecl t)))
           in if items = [] then Inr None
              else Inr (Some (map (convertedIncoming h)
                     (filter (\<lambda>item. canNavigateToFile h (uri (from_item item))) items)))))"
proof (cases "throwIfCancellationRequested tok")
  case (Inl e)
  with throwIf_Inl [OF Inl] show ?thesis
    by (simp add: getIncomingCalls_def)
next
  case (Inr tok1)
  from assms(3) have nonempty: "declarations rr \<noteq> []"
    by (auto simp: getTargetDeclaration_Nil)
  define sourceFiles where "sourceFiles =
    (if declType (targetDecl t) = Alias
     then (case getSourceFileInfo (program p) (filePath p) of None \<Rightarrow> [] | Some info \<Rightarrow> [info])
     else getSourceFileInfoList (program p))"
  have files:
    "(if declType (targetDecl t) = Alias
      then map_option (\<lambda>info. [info]) (getSourceFileInfo (program p) (filePath p))
      else Some (getSourceFileInfoList (program p))) = Some sourceFiles"
    using assms(4) by (auto simp: sourceFiles_def)
  have cand: "candidateFiles_spec h p (targetDecl t) = filter (scannedFile h) sourceFiles"
    by (simp add: candidateFiles_spec_def sourceFiles_def)
  have pr: "\<forall>info\<in>set sourceFiles. scannedFile h info \<longrightarrow>
      getParseResults (program p) (sourceFilePath info) \<noteq> None"
    using assms(5) by (simp add: cand)
  note loop = incomingCallsLoop_walked [OF pr, of "symbolName t" "targetDecl t" "[]" tok1]
  let ?k = "sum_list (map (fileChecks p) (filter (scannedFile h) sourceFiles))"
  have lhs: "getIncomingCalls h p tok =
      (case incomingCallsLoop h p (symbolName t) (targetDecl t) sourceFiles [] tok1 of
         Inl e \<Rightarrow> Inl e
       | Inr (items, tok2) \<Rightarrow>
           if items = [] then Inr None
           else Inr (Some (map (convertedIncoming h)
                  (filter (\<lambda>item. canNavigateToFile h (uri (from_item item))) items))))"
    unfolding getIncomingCalls_def
    by (auto simp: Inr assms(1,2,3) nonempty files convertedIncoming_def [abs_def]
        split: sum.splits)
  have rhs: "afterChecks (Suc ?k) tok = afterChecks ?k tok1"
    by (simp add: Inr)
  show ?thesis
    unfolding lhs loop cand rhs
    by (cases "afterChecks ?k tok1") (simp_all add: Let_def)
qed

text \<open>
  C6. Let the query have parse results and a target (and the querying file be a file of the
  program when the target is an alias), and let every candidate file have parse results.
  Then the outcome of \<^verbatim>\<open>getIncomingCalls\<close> is that of scanning the candidate files of the
  spec, one after the other, and nothing else: the cancellation checks it makes are its
  first and those of the candidate files, and the records it gathers are those of the
  candidate files in their order. The candidate files are the querying file alone when the
  target is an alias, and all files of the program otherwise, in both cases only those that
  are user code or open in the client.
\<close>

theorem incoming_scans_candidate_files:
  assumes "provider_parseResults p = Some pr"
    and "getDeclarationForPosition h (filePath p) (cursorPosition p) = Some rr"
    and "getTargetDeclaration h p rr = Inr t"
    and "declType (targetDecl t) = Alias \<longrightarrow> getSourceFileInfo (program p) (filePath p) \<noteq> None"
    and "\<forall>info\<in>set (candidateFiles_spec h p (targetDecl t)).
           getParseResults (program p) (sourceFilePath info) \<noteq> None"
  shows "getIncomingCalls h p tok =
     (case afterChecks
             (Suc (sum_list (map (fileChecks p) (candidateFiles_spec h p (targetDecl t))))) tok of
        None \<Rightarrow> Inl OperationCanceled
      | Some tok1 \<Rightarrow>
          (let items = concat (map (fileRecords h p (symbolName t) (targetDecl t))
                                (candidateFiles_spec h p (targetDecl t)))
           in if items = [] then Inr None
              else Inr (Some (map (convertedIncoming h)
                     (filter (\<lambda>item. canNavigateToFile h (uri (from_item item))) items)))))"
  using assms by (rule getIncomingCalls_scan)

lemmas scan_defs =
  callInB_def callInThird_def scanProgram_def scanHost_def libQuery_def importQuery_def

lemmas incoming_site_defs =
  fileRecords_def fileChecks_def fileWalker_def incomingCallSites_def callEvents_in_def
  propertyEvents_in_def recordedCall_spec_def comparedDeclaration_def scopedSite_def
  map_filter_simps recordIncomingCall_def upsertAt_Nil upsertAt_Cons freshIncomingCall_def
  changedIncomingCall_def callerKey_def incomingKey_def itemKey_def callSourceOf_def
  callerSiteRange_def occurrenceRange_def convertedIncoming_def
  SymbolKind_Module_def SymbolKind_Function_def

text \<open>In the example program a query on the function scans the three user files and not
  the third-party file; a query on the imported name, an alias, scans the querying file
  alone: five cancellation checks are all it makes, and its one record is of that file.\<close>

theorem incoming_scans_candidate_files_witness:
  "candidateFiles_spec scanHost libQuery libFunction =
     [\<lparr>sourceFilePath = ''/src/a.py'', isOpenByClient = False\<rparr>,
      \<lparr>sourceFilePath = ''/src/b.py'', isOpenByClient = False\<rparr>,
      \<lparr>sourceFilePath = ''/src/lib.py'', isOpenByClient = False\<rparr>] \<and>
   candidateFiles_spec scanHost importQuery (importOf ''real_name'' 16) =
     [\<lparr>sourceFilePath = ''/src/a.py'', isOpenByClient = False\<rparr>] \<and>
   getIncomingCalls scanHost importQuery (CancelAfter 4) = Inl OperationCanceled \<and>
   getIncomingCalls scanHost importQuery (CancelAfter 5) =
     Inr (Some [\<lparr>from_item = \<lparr>name = ''caller'', kind = 12, uri = ''file:///src/a.py'',
                                itemRange = exampleRange 0 55 61,
                                selectionRange = exampleRange 0 55 61\<rparr>,
                  in_fromRanges = [exampleRange 0 70 79, exampleRange 0 110 119]\<rparr>])"
proof -
  let ?a = "\<lparr>sourceFilePath = ''/src/a.py'', isOpenByClient = False\<rparr>"
  let ?t = "\<lparr>targetDecl = importOf ''real_name'' 16, callItemUri = ''/src/a.py'',
              symbolName = ''real_name''\<rparr>"
  let ?rr = "\<lparr>declarations = [importOf ''real_name'' 16],
               nodeAtOffset = \<lparr>nameId = 16, nameValue = ''real_name'', nameStart = 16,
                                 nameLength = 9\<rparr>,
               symbolNames = [''real_name'']\<rparr>"
  have c1: "candidateFiles_spec scanHost libQuery libFunction =
     [?a, \<lparr>sourceFilePath = ''/src/b.py'', isOpenByClient = False\<rparr>,
      \<lparr>sourceFilePath = ''/src/lib.py'', isOpenByClient = False\<rparr>]"
    by (simp add: candidateFiles_spec_def scannedFile_def scan_defs caller_defs example_defs)
  have c2: "candidateFiles_spec scanHost importQuery (importOf ''real_name'' 16) = [?a]"
    by (simp add: candidateFiles_spec_def scannedFile_def scan_defs caller_defs example_defs)
  have pr: "provider_parseResults importQuery = Some callerParseResults"
    by (simp add: provider_parseResults_def scan_defs)
  have rr: "getDeclarationForPosition scanHost (filePath importQuery) (cursorPosition importQuery) =
      Some ?rr"
    by (simp add: scan_defs caller_defs example_defs)
  have t: "getTargetDeclaration scanHost importQuery ?rr = Inr ?t"
    by (simp add: getTargetDeclaration_def scan_defs caller_defs example_defs)
  have info: "declType (targetDecl ?t) = Alias \<longrightarrow>
      getSourceFileInfo (program importQuery) (filePath importQuery) \<noteq> None"
    by (simp add: scan_defs)
  have parsed: "\<forall>info\<in>set (candidateFiles_spec scanHost importQuery (targetDecl ?t)).
      getParseResults (program importQuery) (sourceFilePath info) \<noteq> None"
    by (simp add: c2) (simp add: scan_defs)
  have checks: "fileChecks importQuery ?a = 4"
    by (simp add: fileChecks_def scan_defs caller_defs)
  have records: "fileRecords scanHost importQuery ''real_name'' (importOf ''real_name'' 16) ?a =
      [\<lparr>from_item = \<lparr>name = ''caller'', kind = 12, uri = ''/src/a.py'',
                       itemRange = exampleRange 0 55 61, selectionRange = exampleRange 0 55 61\<rparr>,
         in_fromRanges = [exampleRange 0 70 79, exampleRange 0 110 119]\<rparr>]"
    by (simp add: incoming_site_defs scan_defs caller_defs example_defs Let_def)
  note T = incoming_scans_candidate_files [OF pr rr t info parsed]
  have r4: "getIncomingCalls scanHost importQuery (CancelAfter 4) = Inl OperationCanceled"
    by (simp add: T c2 checks afterChecks_CancelAfter del: afterChecks.simps)
  have r5: "getIncomingCalls scanHost importQuery (CancelAfter 5) =
     Inr (Some [\<lparr>from_item = \<lparr>name = ''caller'', kind = 12, uri = ''file:///src/a.py'',
                                itemRange = exampleRange 0 55 61,
                                selectionRange = exampleRange 0 55 61\<rparr>,
                  in_fromRanges = [exampleRange 0 70 79, exampleRange 0 110 119]\<rparr>])"
    by (simp add: T c2 checks records afterChecks_CancelAfter del: afterChecks.simps)
      (simp add: convertedIncoming_def scan_defs caller_defs example_defs)
  from c1 c2 r4 r5 show ?thesis by (intro conjI)
qed

subsection \<open>Cancellation\<close>

lemma throwIf_Never: "throwIfCancellationRequested NeverCancelled = Inr NeverCancelled"
  by simp











subsection \<open>Null results\<close>

lemmas handler_defs =
  handlerName_def handlerCall_def handlerVariable_def handlerHost_def handlerProvider_def

text \<open>
  C7 as stated fails: \<^verbatim>\<open>getIncomingCalls\<close> has no test of the kind of the target. With the
  cursor on a variable that is called, \<^verbatim>\<open>onPrepare\<close> returns null and \<^verbatim>\<open>getIncomingCalls\<close>
  returns the call.
\<close>

theorem incoming_calls_of_variable_counterexample:
  "declType handlerVariable = Variable \<and>
   map_sum id targetDecl
     (getTargetDeclaration handlerHost handlerProvider
        \<lparr>declarations = [handlerVariable], nodeAtOffset = handlerName,
         symbolNames = [''handler'']\<rparr>) = Inr handlerVariable \<and>
   onPrepare handlerHost handlerProvider NeverCancelled = Inr None \<and>
   getIncomingCalls handlerHost handlerProvider NeverCancelled =
     Inr (Some [\<lparr>from_item = \<lparr>name = ''(module) /src/a.py'', kind = 2, uri = ''file:///src/a.py'',
                                itemRange = exampleRange 0 0 0,
                                selectionRange = exampleRange 0 0 0\<rparr>,
                  in_fromRanges = [exampleRange 0 30 37]\<rparr>])"
  by (simp add: provider_defs handler_defs walker_defs example_defs Let_def)

text \<open>
  C8, at an input where the claim fails on the code: the only callee of \<^verbatim>\<open>caller\<close> is in a
  file that cannot be navigated to. The walker has a record, so the test for an empty list
  passes; the filter then drops the record, and \<^verbatim>\<open>getOutgoingCalls\<close> returns the empty list,
  not null.
\<close>

theorem getOutgoingCalls_returns_empty_list:
  "getOutgoingCalls archiveHost callerProvider NeverCancelled = Inr (Some [])"
  by (simp add: provider_defs archiveHost_def caller_defs walker_defs example_defs Let_def)


lemma getOutgoingCalls_unresolved:
  assumes "throwIfCancellationRequested tok = Inr tok1"
    and "provider_parseResults p = Some pr"
    and "getDeclarationForPosition h (filePath p) (cursorPosition p) = Some rr"
    and "getTargetDeclaration h p rr = Inr t"
    and "\<forall>r. resolveAliasDeclaration (evaluator (program p)) (targetDecl t) True = Some r \<longrightarrow>
           declType r \<noteq> Function \<and> declType r \<noteq> Class"
  shows "getOutgoingCalls h p tok = Inr None"
proof -
  have "outgoingWalk h p = None"
    using assms(2-5)
    by (auto simp: outgoingWalk_def outgoingParseRoot_def split: option.splits)
  with assms(1) show ?thesis by (simp add: getOutgoingCalls_walk)
qed

text \<open>
  C7 (as amended). Let the cancellation check at the top of the operation pass. Then null
  is returned, and nothing is thrown,
  \<^item> by all three operations when the querying file has no parse results, when there is no
    references result for the cursor, or when it has no declaration;
  \<^item> by \<^verbatim>\<open>onPrepare\<close> when the target is not a function, a class or an alias, when it is an
    alias that does not resolve to a function or a class, or when its file cannot be
    navigated to;
  \<^item> by \<^verbatim>\<open>getOutgoingCalls\<close> when the target does not resolve to a function or a class, or
    when the walk ends without a record;
  \<^item> by \<^verbatim>\<open>getIncomingCalls\<close> when the scan of the candidate files ends without a record.
\<close>

theorem no_result_is_null:
  assumes "throwIfCancellationRequested tok = Inr tok1"
  shows
   "(provider_parseResults p = None \<or>
     getDeclarationForPosition h (filePath p) (cursorPosition p) = None \<or>
     (\<exists>empty. getDeclarationForPosition h (filePath p) (cursorPosition p) = Some empty \<and>
        declarations empty = []) \<longrightarrow>
       onPrepare h p tok = Inr None \<and> getIncomingCalls h p tok = Inr None \<and>
       getOutgoingCalls h p tok = Inr None) \<and>
    (provider_parseResults p = Some pr \<and>
     getDeclarationForPosition h (filePath p) (cursorPosition p) = Some rr \<and>
     getTargetDeclaration h p rr = Inr t \<longrightarrow>
       ((declType (targetDecl t) \<noteq> Function \<and> declType (targetDecl t) \<noteq> Class \<and>
         declType (targetDecl t) \<noteq> Alias) \<or>
        (declType (targetDecl t) = Alias \<and>
         (\<forall>r. resolveAliasDeclaration (evaluator (program p)) (targetDecl t) True = Some r \<longrightarrow>
              declType r \<noteq> Function \<and> declType r \<noteq> Class)) \<or>
        \<not> canNavigateToFile h (callItemUri t) \<longrightarrow>
          onPrepare h p tok = Inr None) \<and>
       ((\<forall>r. resolveAliasDeclaration (evaluator (program p)) (targetDecl t) True = Some r \<longrightarrow>
             declType r \<noteq> Function \<and> declType r \<noteq> Class) \<longrightarrow>
          getOutgoingCalls h p tok = Inr None) \<and>
       ((declType (targetDecl t) = Alias \<longrightarrow>
           getSourceFileInfo (program p) (filePath p) \<noteq> None) \<and>
        (\<forall>info\<in>set (candidateFiles_spec h p (targetDecl t)).
           getParseResults (program p) (sourceFilePath info) \<noteq> None \<and>
           fileRecords h p (symbolName t) (targetDecl t) info = []) \<and>
        afterChecks (sum_list (map (fileChecks p) (candidateFiles_spec h p (targetDecl t)))) tok1
          \<noteq> None \<longrightarrow>
          getIncomingCalls h p tok = Inr None)) \<and>
    (outgoingWalk h p = Some (walkedResults, parseRoot) \<and>
     findCalls_out h (evaluator (program p)) walkedResults parseRoot tok1 = Inr ([], tok2) \<longrightarrow>
       getOutgoingCalls h p tok = Inr None)"
proof (intro conjI impI)
  assume none: "provider_parseResults p = None \<or>
     getDeclarationForPosition h (filePath p) (cursorPosition p) = None \<or>
     (\<exists>empty. getDeclarationForPosition h (filePath p) (cursorPosition p) = Some empty \<and>
        declarations empty = [])"
  show "onPrepare h p tok = Inr None"
    using none assms by (auto simp: onPrepare_def split: option.splits)
  show "getIncomingCalls h p tok = Inr None"
    using none assms by (auto simp: getIncomingCalls_def split: option.splits)
  show "getOutgoingCalls h p tok = Inr None"
    using none assms by (auto simp: getOutgoingCalls_def split: option.splits)
next
  assume q: "provider_parseResults p = Some pr \<and>
     getDeclarationForPosition h (filePath p) (cursorPosition p) = Some rr \<and>
     getTargetDeclaration h p rr = Inr t"
  then have nonempty: "declarations rr \<noteq> []"
    by (auto simp: getTargetDeclaration_Nil)
  {
    assume "(declType (targetDecl t) \<noteq> Function \<and> declType (targetDecl t) \<noteq> Class \<and>
         declType (targetDecl t) \<noteq> Alias) \<or>
        (declType (targetDecl t) = Alias \<and>
         (\<forall>r. resolveAliasDeclaration (evaluator (program p)) (targetDecl t) True = Some r \<longrightarrow>
              declType r \<noteq> Function \<and> declType r \<noteq> Class)) \<or>
        \<not> canNavigateToFile h (callItemUri t)"
    then show "onPrepare h p tok = Inr None"
      using q nonempty assms
      by (auto simp: onPrepare_def Let_def split: option.splits)
  }
  {
    assume "\<forall>r. resolveAliasDeclaration (evaluator (program p)) (targetDecl t) True = Some r \<longrightarrow>
        declType r \<noteq> Function \<and> declType r \<noteq> Class"
    with q assms show "getOutgoingCalls h p tok = Inr None"
      by (intro getOutgoingCalls_unresolved [of tok tok1 p pr h rr t]) simp_all
  }
  {
    assume e: "(declType (targetDecl t) = Alias \<longrightarrow>
           getSourceFileInfo (program p) (filePath p) \<noteq> None) \<and>
        (\<forall>info\<in>set (candidateFiles_spec h p (targetDecl t)).
           getParseResults (program p) (sourceFilePath info) \<noteq> None \<and>
           fileRecords h p (symbolName t) (targetDecl t) info = []) \<and>
        afterChecks (sum_list (map (fileChecks p) (candidateFiles_spec h p (targetDecl t)))) tok1
          \<noteq> None"
    from e have empty: "concat (map (fileRecords h p (symbolName t) (targetDecl t))
        (candidateFiles_spec h p (targetDecl t))) = []"
      by simp
    from q e have "getIncomingCalls h p tok =
      (case afterChecks
             (Suc (sum_list (map (fileChecks p) (candidateFiles_spec h p (targetDecl t))))) tok of
        None \<Rightarrow> Inl OperationCanceled
      | Some tok1 \<Rightarrow>
          (let items = concat (map (fileRecords h p (symbolName t) (targetDecl t))
                                (candidateFiles_spec h p (targetDecl t)))
           in if items = [] then Inr None
              else Inr (Some (map (convertedIncoming h)
                     (filter (\<lambda>item. canNavigateToFile h (uri (from_item item))) items)))))"
      by (intro getIncomingCalls_scan [of p pr h rr t tok]) simp_all
    with e assms show "getIncomingCalls h p tok = Inr None"
      unfolding empty by (auto simp: Let_def split: option.splits)
  }
next
  assume "outgoingWalk h p = Some (walkedResults, parseRoot) \<and>
     findCalls_out h (evaluator (program p)) walkedResults parseRoot tok1 = Inr ([], tok2)"
  with assms show "getOutgoingCalls h p tok = Inr None"
    by (simp add: getOutgoingCalls_walk)
qed


text \<open>Examples of the conditions: no declaration at the cursor; a variable as the target; a
  function that calls nothing and that nothing calls.\<close>

theorem no_result_is_null_witness:
  "onPrepare exampleHost callerProvider NeverCancelled = Inr None \<and>
   getIncomingCalls exampleHost callerProvider NeverCancelled = Inr None \<and>
   getOutgoingCalls exampleHost callerProvider NeverCancelled = Inr None \<and>
   onPrepare handlerHost handlerProvider NeverCancelled = Inr None \<and>
   getOutgoingCalls handlerHost handlerProvider NeverCancelled = Inr None \<and>
   getOutgoingCalls (classHost helperFunction) classProvider NeverCancelled = Inr None \<and>
   getIncomingCalls (classHost helperFunction) classProvider NeverCancelled = Inr None"
proof -
  have tok: "throwIfCancellationRequested NeverCancelled = Inr NeverCancelled"
    by simp
  have undeclared: "getDeclarationForPosition exampleHost (filePath callerProvider)
      (cursorPosition callerProvider) = None"
    by (simp add: exampleHost_def)
  note first = no_result_is_null [OF tok, where p = callerProvider and h = exampleHost,
      THEN conjunct1]
  have 1: "onPrepare exampleHost callerProvider NeverCancelled = Inr None \<and>
      getIncomingCalls exampleHost callerProvider NeverCancelled = Inr None \<and>
      getOutgoingCalls exampleHost callerProvider NeverCancelled = Inr None"
    by (rule mp [OF first]) (simp add: undeclared)
  let ?hrr = "\<lparr>declarations = [handlerVariable], nodeAtOffset = handlerName,
               symbolNames = [''handler'']\<rparr>"
  let ?ht = "\<lparr>targetDecl = handlerVariable, callItemUri = ''/src/a.py'', symbolName = ''handler''\<rparr>"
  have hq: "provider_parseResults handlerProvider =
        Some \<lparr>parseTree = OtherN 1 [CallN 310 (NameN handlerCall) []], tokenizerLines = []\<rparr> \<and>
      getDeclarationForPosition handlerHost (filePath handlerProvider)
        (cursorPosition handlerProvider) = Some ?hrr \<and>
      getTargetDeclaration handlerHost handlerProvider ?hrr = Inr ?ht"
    by (simp add: provider_defs handler_defs example_defs)
  have hkind: "declType (targetDecl ?ht) \<noteq> Function \<and> declType (targetDecl ?ht) \<noteq> Class \<and>
      declType (targetDecl ?ht) \<noteq> Alias"
    by (simp add: handlerVariable_def)
  have hres: "\<forall>r. resolveAliasDeclaration (evaluator (program handlerProvider)) (targetDecl ?ht) True =
      Some r \<longrightarrow> declType r \<noteq> Function \<and> declType r \<noteq> Class"
    by (auto simp: handler_defs example_defs)
  note second = no_result_is_null [OF tok, where p = handlerProvider and h = handlerHost
      and rr = ?hrr and t = ?ht, THEN conjunct2, THEN conjunct1, THEN mp, OF hq]
  have 2: "onPrepare handlerHost handlerProvider NeverCancelled = Inr None \<and>
      getOutgoingCalls handlerHost handlerProvider NeverCancelled = Inr None"
    using second hkind hres by (intro conjI) simp_all
  let ?pr = "\<lparr>parseTree = OtherN 1 [], tokenizerLines = []\<rparr>"
  let ?rr = "\<lparr>declarations = [helperFunction],
               nodeAtOffset = \<lparr>nameId = 0, nameValue = ''C'', nameStart = 0, nameLength = 1\<rparr>,
               symbolNames = [''C'']\<rparr>"
  let ?t = "\<lparr>targetDecl = helperFunction, callItemUri = ''/src/a.py'', symbolName = ''helper''\<rparr>"
  let ?info = "\<lparr>sourceFilePath = ''/src/a.py'', isOpenByClient = True\<rparr>"
  have walk: "outgoingWalk (classHost helperFunction) classProvider =
      Some (?pr, declNode helperFunction)"
    by (simp add: outgoingWalk_def provider_defs class_defs example_defs)
  have empty: "findCalls_out (classHost helperFunction) (evaluator (program classProvider)) ?pr
      (declNode helperFunction) NeverCancelled = Inr ([], NeverCancelled)"
    by (simp add: class_defs walker_defs example_defs)
  have q: "provider_parseResults classProvider = Some ?pr \<and>
      getDeclarationForPosition (classHost helperFunction) (filePath classProvider)
        (cursorPosition classProvider) = Some ?rr \<and>
      getTargetDeclaration (classHost helperFunction) classProvider ?rr = Inr ?t"
    by (simp add: provider_defs class_defs example_defs)
  have cand: "candidateFiles_spec (classHost helperFunction) classProvider helperFunction = [?info]"
    by (simp add: candidateFiles_spec_def scannedFile_def class_defs example_defs)
  have scan: "(declType (targetDecl ?t) = Alias \<longrightarrow>
        getSourceFileInfo (program classProvider) (filePath classProvider) \<noteq> None) \<and>
      (\<forall>info\<in>set (candidateFiles_spec (classHost helperFunction) classProvider (targetDecl ?t)).
         getParseResults (program classProvider) (sourceFilePath info) \<noteq> None \<and>
         fileRecords (classHost helperFunction) classProvider (symbolName ?t) (targetDecl ?t) info = []) \<and>
      afterChecks (sum_list (map (fileChecks classProvider)
        (candidateFiles_spec (classHost helperFunction) classProvider (targetDecl ?t))))
        NeverCancelled \<noteq> None"
    by (simp add: cand afterChecks_Never del: afterChecks.simps)
      (simp add: incoming_site_defs class_defs example_defs)
  note third = no_result_is_null [OF tok, where p = classProvider
      and h = "classHost helperFunction" and pr = ?pr and rr = ?rr and t = ?t
      and walkedResults = ?pr and parseRoot = "declNode helperFunction"
      and ?tok2.0 = NeverCancelled, THEN conjunct2]
  have 3: "getOutgoingCalls (classHost helperFunction) classProvider NeverCancelled = Inr None \<and>
      getIncomingCalls (classHost helperFunction) classProvider NeverCancelled = Inr None"
    using third [THEN conjunct2] third [THEN conjunct1, THEN mp, OF q] walk empty scan
    by (intro conjI) simp_all
  from 1 2 3 show ?thesis by (intro conjI) simp_all
qed

end
